theory Spec2Isabelle
  imports Main "HOL-Library.Word"
begin

unbundle bit_operations_syntax

section \<open>C strings and the libc string functions called by tmux.c\<close>

text \<open>
  A C string is modelled by the list of its bytes before the terminating NUL, and a
  pointer that may be NULL by an option. The functions below are the libc functions
  that tmux.c calls on strings; each returns what the C function returns, a pointer
  into the string being the suffix that starts there.
\<close>

fun strrchr :: "string \<Rightarrow> char \<Rightarrow> string option" where
  "strrchr [] c = None"
| "strrchr (x # xs) c =
     (case strrchr xs c of
        Some r \<Rightarrow> Some r
      | None \<Rightarrow> if x = c then Some (x # xs) else None)"

fun starts_with :: "string \<Rightarrow> string \<Rightarrow> bool" where
  "starts_with s [] = True"
| "starts_with [] (n # ns) = False"
| "starts_with (c # cs) (n # ns) = (c = n \<and> starts_with cs ns)"

fun strstr :: "string \<Rightarrow> string \<Rightarrow> string option" where
  "strstr [] n = (if n = [] then Some [] else None)"
| "strstr (c # cs) n =
     (if starts_with (c # cs) n then Some (c # cs) else strstr cs n)"

definition tolower :: "char \<Rightarrow> char" where
  "tolower c =
     (let n = (of_char c :: nat) in if 65 \<le> n \<and> n \<le> 90 then char_of (n + 32) else c)"

fun strcasestr :: "string \<Rightarrow> string \<Rightarrow> string option" where
  "strcasestr [] n = (if n = [] then Some [] else None)"
| "strcasestr (c # cs) n =
     (if starts_with (map tolower (c # cs)) (map tolower n) then Some (c # cs)
      else strcasestr cs n)"

definition strcasecmp_eq :: "string \<Rightarrow> string \<Rightarrow> bool" where
  \<comment> \<open>\<open>strcasecmp(a, b) == 0\<close>\<close>
  "strcasecmp_eq a b = (map tolower a = map tolower b)"

definition strcspn :: "string \<Rightarrow> string \<Rightarrow> nat" where
  "strcspn s reject = length (takeWhile (\<lambda>c. c \<notin> set reject) s)"

definition strlcpy :: "string \<Rightarrow> nat \<Rightarrow> string" where
  \<comment> \<open>the contents of a destination buffer of \<open>dstsize\<close> bytes after \<open>strlcpy\<close>\<close>
  "strlcpy src dstsize = take (dstsize - 1) src"

fun fmt_u :: "nat \<Rightarrow> string" where
  \<comment> \<open>the conversion \<open>%u\<close> of the printf family\<close>
  "fmt_u n =
     (if n < 10 then [char_of (48 + n)]
      else fmt_u (n div 10) @ [char_of (48 + n mod 10)])"

declare fmt_u.simps [simp del]

section \<open>The operating system and the headers missing from the sources\<close>

datatype errno = ENOENT | EACCES | EEXIST | ENOTDIR | EOTHER nat

record stat =
  st_mode :: "32 word"
  st_uid :: "32 word"

record passwd =
  pw_dir :: string
  pw_shell :: string

text \<open>
  The answers of the system to the library and system calls tmux.c makes:
  \<^item> \<open>os_getuid\<close>: the result of \<open>getuid\<close>;
  \<^item> \<open>os_environ\<close>: the environment the process starts with (\<open>getenv\<close> looks a name
    up in the current environment, which is part of the state below, since \<open>unsetenv\<close>
    changes it);
  \<^item> \<open>os_progname\<close>: the string \<open>__progname\<close>;
  \<^item> \<open>os_access_X_OK p\<close>: whether \<open>access(p, X_OK)\<close> returns 0;
  \<^item> \<open>os_getpwuid\<close>: the entry \<open>getpwuid\<close> returns, \<open>None\<close> for NULL;
  \<^item> \<open>os_mkdir p mode\<close>: \<open>None\<close> when \<open>mkdir\<close> returns 0, else the errno it leaves;
  \<^item> \<open>os_lstat p\<close>: the errno when \<open>lstat\<close> fails, else the status it fills in;
  \<^item> \<open>os_realpath p\<close>: the resolved path, \<open>None\<close> for NULL;
  \<^item> \<open>os_mktemp p\<close>: the contents of the buffer after \<open>mktemp\<close>;
  \<^item> \<open>os_setlocale_ctype l\<close>: whether \<open>setlocale(LC_CTYPE, l)\<close> succeeds;
  \<^item> \<open>os_nl_langinfo_codeset\<close>: the string \<open>nl_langinfo(CODESET)\<close> returns;
  \<^item> \<open>os_getcwd\<close>: the working directory, \<open>None\<close> when \<open>getcwd\<close> fails;
  \<^item> \<open>os_strerror\<close>, \<open>os_ssh_version\<close>: the strings \<open>strerror\<close> and
    \<open>ssh_version(0)\<close> return.

  Nothing is assumed about these answers: every theorem below holds for all of them, or
  names the answers it is about in its hypotheses.
\<close>

record os =
  os_getuid :: "32 word"
  os_environ :: "string \<rightharpoonup> string"
  os_progname :: string
  os_access_X_OK :: "string \<Rightarrow> bool"
  os_getpwuid :: "32 word \<Rightarrow> passwd option"
  os_mkdir :: "string \<Rightarrow> 32 word \<Rightarrow> errno option"
  os_lstat :: "string \<Rightarrow> errno + stat"
  os_realpath :: "string \<Rightarrow> string option"
  os_mktemp :: "string \<Rightarrow> string"
  os_setlocale_ctype :: "string \<Rightarrow> bool"
  os_nl_langinfo_codeset :: string
  os_getcwd :: "string option"
  os_strerror :: "errno \<Rightarrow> string"
  os_ssh_version :: string

datatype opt_value = OptString string | OptNumber int

type_synonym options = "string \<rightharpoonup> opt_value"

text \<open>
  The constants tmux.c takes from tmux.h, paths.h, limits.h and the build (client flag
  bits, key-table identifiers, option tables, \<open>_PATH_TMP\<close>, \<open>_PATH_BSHELL\<close>,
  \<open>PATH_MAX\<close>, \<open>VERSION\<close>). These headers are not among the sources, so the
  constants are parameters: the theorems below hold for all their values.
\<close>

record hdr =
  CLIENT_LOGIN :: "32 word"
  CLIENT_CONTROL :: "32 word"
  CLIENT_CONTROLCONTROL :: "32 word"
  CLIENT_UTF8 :: "32 word"
  CLIENT_256COLOURS :: "32 word"
  MODEKEY_EMACS :: int
  MODEKEY_VI :: int
  OPTIONS_TABLE_SERVER :: options
  OPTIONS_TABLE_SESSION :: options
  OPTIONS_TABLE_WINDOW :: options
  PATH_TMP :: string
  PATH_BSHELL :: string
  PATH_MAX :: nat
  VERSION :: string

text \<open>The file-mode bits of sys/stat.h, with their POSIX values.\<close>

definition S_IRWXU :: "32 word" where "S_IRWXU = 0x1C0"
definition S_IRWXG :: "32 word" where "S_IRWXG = 0x38"
definition S_IRWXO :: "32 word" where "S_IRWXO = 0x7"
definition S_IFMT :: "32 word" where "S_IFMT = 0xF000"
definition S_IFDIR :: "32 word" where "S_IFDIR = 0x4000"

definition S_ISDIR :: "32 word \<Rightarrow> bool" where
  "S_ISDIR m = (m AND S_IFMT = S_IFDIR)"

section \<open>getshell, checkshell, areshell\<close>

definition areshell :: "os \<Rightarrow> string \<Rightarrow> bool" where
  "areshell os shell =
     (let ptr = (case strrchr shell CHR ''/'' of Some p \<Rightarrow> tl p | None \<Rightarrow> shell);
          progname = os_progname os;
          progname = (case progname of
                        c # rest \<Rightarrow> if c = CHR ''-'' then rest else progname
                      | [] \<Rightarrow> progname)
      in ptr = progname)"

definition checkshell :: "os \<Rightarrow> string option \<Rightarrow> bool" where
  "checkshell os shell =
     (case shell of
        None \<Rightarrow> False
      | Some [] \<Rightarrow> False
      | Some (c # cs) \<Rightarrow>
          if c \<noteq> CHR ''/'' then False
          else if areshell os (c # cs) then False
          else if \<not> os_access_X_OK os (c # cs) then False
          else True)"

definition getshell :: "hdr \<Rightarrow> os \<Rightarrow> (string \<rightharpoonup> string) \<Rightarrow> string" where
  "getshell h os env =
     (case (if checkshell os (env ''SHELL'') then env ''SHELL'' else None) of
        Some shell \<Rightarrow> shell
      | None \<Rightarrow>
          (case os_getpwuid os (os_getuid os) of
             Some pw \<Rightarrow> if checkshell os (Some (pw_shell pw)) then pw_shell pw else PATH_BSHELL h
           | None \<Rightarrow> PATH_BSHELL h))"

section \<open>make_label\<close>

text \<open>
  The function as compiled with \<open>TMATE\<close> defined, which is the only way the file
  compiles (\<open>main\<close> uses \<open>api_key\<close> and \<open>tmate_foreground\<close>, declared under
  that macro). The argument \<open>env\<close> is the process environment at the time of the call.
  The result is \<open>Inl\<close> of the errno when the C function returns NULL.
\<close>

definition make_label :: "hdr \<Rightarrow> os \<Rightarrow> (string \<rightharpoonup> string) \<Rightarrow> string option \<Rightarrow> errno + string" where
  "make_label h os env label0 =
     (let do_random_label = (label0 = None);
          label = (case label0 of None \<Rightarrow> ''default'' | Some l \<Rightarrow> l);
          uid = os_getuid os;
          base = (case env ''TMUX_TMPDIR'' of
                    Some (c # cs) \<Rightarrow> (c # cs) @ ''/tmate-'' @ fmt_u (unat uid)
                  | _ \<Rightarrow> PATH_TMP h @ ''/tmate-'' @ fmt_u (unat uid))
      in case (case os_mkdir os base S_IRWXU of
                 Some e \<Rightarrow> if e \<noteq> EEXIST then Some e else None
               | None \<Rightarrow> None) of
           Some e \<Rightarrow> Inl e
         | None \<Rightarrow>
           (case os_lstat os base of
              Inl e \<Rightarrow> Inl e
            | Inr sb \<Rightarrow>
                if \<not> S_ISDIR (st_mode sb) then Inl ENOTDIR
                else if st_uid sb \<noteq> uid \<or> st_mode sb AND S_IRWXO \<noteq> 0 then Inl EACCES
                else
                  let label = (if do_random_label then ''XXXXXX'' else label);
                      resolved = (case os_realpath os base of
                                    Some r \<Rightarrow> r
                                  | None \<Rightarrow> strlcpy base (PATH_MAX h));
                      path = resolved @ ''/'' @ label
                  in Inr (if do_random_label then os_mktemp os path else path)))"

section \<open>The state of the process\<close>

text \<open>
  The variables of \<open>main\<close> that outlive the option loop, the process environment
  (which \<open>-F\<close> changes), and the file's global variables. \<open>cfg_file\<close> and
  \<open>log_level\<close> record the calls of \<open>set_cfg_file\<close> and \<open>log_add_level\<close>, which
  are defined elsewhere. A pointer that is NULL is \<open>None\<close>.
\<close>

record state =
  flags :: "32 word"
  path :: "string option"
  label :: "string option"
  shellcmd :: "string option"
  env :: "string \<rightharpoonup> string"
  cfg_file :: "string option"
  log_level :: nat
  tmate_foreground :: int
  api_key :: "string option"
  session_name :: "string option"
  session_name_ro :: "string option"
  authorized_keys :: "string option"
  global_hooks :: "unit option"
  global_environ :: "(string \<rightharpoonup> string) option"
  global_options :: "options option"
  global_s_options :: "options option"
  global_w_options :: "options option"
  socket_path :: "string option"

text \<open>
  How \<open>main\<close> ends: \<open>Exit status out err s\<close> is a call of \<open>exit(status)\<close> after
  writing \<open>out\<close> to standard output and \<open>err\<close> to standard error, in state
  \<open>s\<close>; \<open>Client_main s args\<close> is the call of \<open>client_main\<close> on the remaining
  arguments \<open>args\<close>, with \<open>flags s\<close> and \<open>shellcmd s\<close>.
\<close>

datatype outcome = Exit int string string state | Client_main state "string list"

definition nl :: string where
  "nl = [CHR 0x0A]"

definition usage_text :: "os \<Rightarrow> string" where
  "usage_text os =
     ''Usage: '' @ os_progname os @ '' [options] [tmux-command [flags]]'' @ nl @
     nl @
     ''Basic options:'' @ nl @
     '' -n <name>    specify the session token instead of getting a random one'' @ nl @
     '' -r <name>    same, but for the read-only token'' @ nl @
     '' -k <key>     specify an api-key, necessary for using named sessions on tmate.io'' @ nl @
     '' -F           set the foreground mode, useful for setting remote access'' @ nl @
     '' -f <path>    set the config file path'' @ nl @
     '' -S <path>    set the socket path, useful to issue commands to a running tmate instance'' @ nl @
     '' -a <path>    limit access to ssh public keys listed in provided file'' @ nl @
     '' -v           set verbosity (can be repeated)'' @ nl @
     '' -V           print version'' @ nl"

definition usage :: "os \<Rightarrow> state \<Rightarrow> outcome" where
  "usage os s = Exit 1 [] (usage_text os) s"

definition errx :: "os \<Rightarrow> int \<Rightarrow> string \<Rightarrow> state \<Rightarrow> outcome" where
  "errx os status msg s = Exit status [] (os_progname os @ '': '' @ msg @ nl) s"

section \<open>tmate_load_cli_options\<close>

text \<open>
  \<open>run_headless_command\<close> is defined elsewhere; the model records each call with its
  argument vector, and each \<open>free\<close> with the string released.
\<close>

datatype event = Run_headless_command "string list" | Free string

definition SET_OPT :: "string \<Rightarrow> string option \<Rightarrow> event list \<times> string option" where
  "SET_OPT name val =
     (case val of
        Some v \<Rightarrow> ([Run_headless_command [''set-option'', name, v], Free v], None)
      | None \<Rightarrow> ([], val))"

definition tmate_load_cli_options :: "state \<Rightarrow> event list \<times> state" where
  "tmate_load_cli_options s =
     (let (e1, v1) = SET_OPT ''tmate-api-key'' (api_key s);
          (e2, v2) = SET_OPT ''tmate-session-name'' (session_name s);
          (e3, v3) = SET_OPT ''tmate-session-name-ro'' (session_name_ro s);
          (e4, v4) = SET_OPT ''tmate-authorized-keys'' (authorized_keys s)
      in (e1 @ e2 @ e3 @ e4,
          s\<lparr>api_key := v1, session_name := v2, session_name_ro := v3,
            authorized_keys := v4\<rparr>))"

section \<open>main\<close>

text \<open>
  \<open>getopt\<close> is libc: the model takes the options it returns one after the other,
  each with its \<open>optarg\<close>, as the list \<open>opts\<close>, and the arguments left after
  \<open>optind\<close> as \<open>args\<close>. An option letter without a case in the switch, and the
  \<open>?\<close> that \<open>getopt\<close> returns for an unknown option, take the default branch.
  \<open>argv0\<close> is \<open>argv[0]\<close>. The body of \<open>main\<close> is cut at its comments into
  the definitions below, which \<open>main\<close> runs in the order of the source; the calls
  that leave no trace in the values main computes (\<open>setlocale(LC_TIME, ...)\<close>,
  \<open>tzset\<close>, \<open>tmate_catch_sigsegv\<close>, \<open>event_init\<close>) are left out.
\<close>

definition init_locale :: "os \<Rightarrow> string option" where
  \<comment> \<open>lines 245 to 252: the message of \<open>errx\<close>, if it is called\<close>
  "init_locale os =
     (if \<not> os_setlocale_ctype os ''en_US.UTF-8'' \<and> \<not> os_setlocale_ctype os ''C.UTF-8'' then
        if \<not> os_setlocale_ctype os [] then Some ''invalid LC_ALL, LC_CTYPE or LANG''
        else
          let s = os_nl_langinfo_codeset os
          in if \<not> strcasecmp_eq s ''UTF-8'' \<and> \<not> strcasecmp_eq s ''UTF8''
             then Some (''need UTF-8 locale (LC_CTYPE) but have '' @ s)
             else None
      else None)"

definition init_state :: "hdr \<Rightarrow> os \<Rightarrow> string \<Rightarrow> state" where
  \<comment> \<open>the variables at line 267, before the option loop\<close>
  "init_state h os argv0 =
     \<lparr>flags = (case argv0 of
                 c # cs \<Rightarrow> if c = CHR ''-'' then CLIENT_LOGIN h else 0
               | [] \<Rightarrow> 0)
              OR (CLIENT_256COLOURS h OR CLIENT_UTF8 h),
      path = None, label = None, shellcmd = None,
      env = os_environ os,
      cfg_file = None, log_level = 0, tmate_foreground = 0,
      api_key = None, session_name = None, session_name_ro = None,
      authorized_keys = None,
      global_hooks = None, global_environ = None, global_options = None,
      global_s_options = None, global_w_options = None, socket_path = None\<rparr>"

definition opt_step :: "hdr \<Rightarrow> os \<Rightarrow> char \<Rightarrow> string \<Rightarrow> state \<Rightarrow> outcome + state" where
  \<comment> \<open>the switch of lines 269 to 330\<close>
  "opt_step h os opt optarg s =
     (if opt = CHR ''2'' then Inr (s\<lparr>flags := flags s OR CLIENT_256COLOURS h\<rparr>)
      else if opt = CHR ''c'' then Inr (s\<lparr>shellcmd := Some optarg\<rparr>)
      else if opt = CHR ''C'' then
        (if flags s AND CLIENT_CONTROL h \<noteq> 0
         then Inr (s\<lparr>flags := flags s OR CLIENT_CONTROLCONTROL h\<rparr>)
         else Inr (s\<lparr>flags := flags s OR CLIENT_CONTROL h\<rparr>))
      else if opt = CHR ''V'' then
        Inl (Exit 0 (os_progname os @ '' '' @ VERSION h @ nl @
                     ''libssh '' @ os_ssh_version os @ nl) [] s)
      else if opt = CHR ''f'' then Inr (s\<lparr>cfg_file := Some optarg\<rparr>)
      else if opt = CHR ''l'' then Inr (s\<lparr>flags := flags s OR CLIENT_LOGIN h\<rparr>)
      else if opt = CHR ''L'' then Inr (s\<lparr>label := Some optarg\<rparr>)
      else if opt = CHR ''q'' then Inr s
      else if opt = CHR ''S'' then Inr (s\<lparr>path := Some optarg\<rparr>)
      else if opt = CHR ''u'' then Inr (s\<lparr>flags := flags s OR CLIENT_UTF8 h\<rparr>)
      else if opt = CHR ''v'' then Inr (s\<lparr>log_level := log_level s + 1\<rparr>)
      else if opt = CHR ''F'' then
        Inr (s\<lparr>tmate_foreground := 1, log_level := log_level s + 1,
               env := (env s)(''TMUX'' := None)\<rparr>)
      else if opt = CHR ''k'' then Inr (s\<lparr>api_key := Some optarg\<rparr>)
      else if opt = CHR ''n'' then Inr (s\<lparr>session_name := Some optarg\<rparr>)
      else if opt = CHR ''r'' then Inr (s\<lparr>session_name_ro := Some optarg\<rparr>)
      else if opt = CHR ''a'' then Inr (s\<lparr>authorized_keys := Some optarg\<rparr>)
      else Inl (usage os s))"

fun parse_opts :: "hdr \<Rightarrow> os \<Rightarrow> (char \<times> string) list \<Rightarrow> state \<Rightarrow> outcome + state" where
  \<comment> \<open>the loop of lines 268 to 331\<close>
  "parse_opts h os [] s = Inr s"
| "parse_opts h os ((opt, optarg) # rest) s =
     (case opt_step h os opt optarg s of
        Inl e \<Rightarrow> Inl e
      | Inr s' \<Rightarrow> parse_opts h os rest s')"

definition locale_value :: "(string \<rightharpoonup> string) \<Rightarrow> string" where
  \<comment> \<open>lines 354 to 360: the string that is searched for UTF-8\<close>
  "locale_value e =
     (let s = e ''LC_ALL'';
          s = (if s = None \<or> s = Some [] then e ''LC_CTYPE'' else s);
          s = (if s = None \<or> s = Some [] then e ''LANG'' else s)
      in case s of None \<Rightarrow> [] | Some v \<Rightarrow> v)"

definition utf8_flags :: "hdr \<Rightarrow> (string \<rightharpoonup> string) \<Rightarrow> 32 word \<Rightarrow> 32 word" where
  \<comment> \<open>lines 351 to 364\<close>
  "utf8_flags h e fl =
     (if e ''TMUX'' \<noteq> None then fl OR CLIENT_UTF8 h
      else
        let s = locale_value e
        in if strcasestr s ''UTF-8'' \<noteq> None \<or> strcasestr s ''UTF8'' \<noteq> None
           then fl OR CLIENT_UTF8 h
           else fl)"

definition create_globals :: "hdr \<Rightarrow> os \<Rightarrow> state \<Rightarrow> state" where
  \<comment> \<open>lines 366 to 382: hooks, environment copy and the three option trees\<close>
  "create_globals h os s =
     s\<lparr>global_hooks := Some (),
       global_environ := Some (case os_getcwd os of
                                 Some tmp \<Rightarrow> (env s)(''PWD'' \<mapsto> tmp)
                               | None \<Rightarrow> env s),
       global_options := Some (Map.empty ++ OPTIONS_TABLE_SERVER h),
       global_s_options := Some ((Map.empty ++ OPTIONS_TABLE_SESSION h)
                                   (''default-shell'' \<mapsto> OptString (getshell h os (env s)))),
       global_w_options := Some (Map.empty ++ OPTIONS_TABLE_WINDOW h)\<rparr>"

definition options_set_number :: "options option \<Rightarrow> string \<Rightarrow> int \<Rightarrow> options option" where
  "options_set_number oo name v = map_option (\<lambda>t. t(name \<mapsto> OptNumber v)) oo"

definition override_keys :: "hdr \<Rightarrow> state \<Rightarrow> state" where
  \<comment> \<open>lines 385 to 394\<close>
  "override_keys h s =
     (case (case env s ''VISUAL'' of Some v \<Rightarrow> Some v | None \<Rightarrow> env s ''EDITOR'') of
        Some v \<Rightarrow>
          let v = (case strrchr v CHR ''/'' of Some p \<Rightarrow> tl p | None \<Rightarrow> v);
              keys = (if strstr v ''vi'' \<noteq> None then MODEKEY_VI h else MODEKEY_EMACS h)
          in s\<lparr>global_s_options := options_set_number (global_s_options s) ''status-keys'' keys,
               global_w_options := options_set_number (global_w_options s) ''mode-keys'' keys\<rparr>
      | None \<Rightarrow> s)"

definition locate_socket :: "hdr \<Rightarrow> os \<Rightarrow> state \<Rightarrow> errno + string" where
  \<comment> \<open>lines 401 to 408: the value of \<open>path\<close>, or the errno left by \<open>make_label\<close>\<close>
  "locate_socket h os s =
     (let p = (if path s = None \<and> label s = None then
                 (case env s ''TMUX'' of
                    Some (c # cs) \<Rightarrow>
                      if c \<noteq> CHR '','' then Some (take (strcspn (c # cs) '','') (c # cs))
                      else path s
                  | _ \<Rightarrow> path s)
               else path s)
      in case p of
           Some p' \<Rightarrow> Inr p'
         | None \<Rightarrow> make_label h os (env s) (label s))"

definition main :: "hdr \<Rightarrow> os \<Rightarrow> string \<Rightarrow> (char \<times> string) list \<Rightarrow> string list \<Rightarrow> outcome" where
  "main h os argv0 opts args =
     (case init_locale os of
        Some msg \<Rightarrow> errx os 1 msg (init_state h os argv0)
      | None \<Rightarrow>
          (case parse_opts h os opts (init_state h os argv0) of
             Inl e \<Rightarrow> e
           | Inr s \<Rightarrow>
               if shellcmd s \<noteq> None \<and> args \<noteq> [] then usage os s
               else
                 let s = s\<lparr>flags := utf8_flags h (env s) (flags s)\<rparr>;
                     s = create_globals h os s;
                     s = override_keys h s
                 in case locate_socket h os s of
                      Inl e \<Rightarrow>
                        Exit 1 [] (''can't create socket: '' @ os_strerror os e @ nl) s
                    | Inr p \<Rightarrow> Client_main (s\<lparr>socket_path := Some p\<rparr>) args))"

section \<open>The notions the specification uses\<close>

text \<open>
  These definitions follow the words of the specification, not the code; the theorems
  below relate the code to them.
\<close>

definition last_component :: "string \<Rightarrow> string" where
  \<comment> \<open>the last path component: what follows the last slash, or the whole string\<close>
  "last_component p = rev (takeWhile (\<lambda>c. c \<noteq> CHR ''/'') (rev p))"

definition strip_dash :: "string \<Rightarrow> string" where
  \<comment> \<open>a name with one leading \<open>-\<close> stripped\<close>
  "strip_dash n = (case n of c # cs \<Rightarrow> if c = CHR ''-'' then cs else n | [] \<Rightarrow> [])"

definition contains :: "string \<Rightarrow> string \<Rightarrow> bool" where
  \<comment> \<open>\<open>n\<close> occurs in \<open>s\<close> as a substring\<close>
  "contains s n = list_ex (\<lambda>i. take (length n) (drop i s) = n) [0..<Suc (length s)]"

definition contains_ci :: "string \<Rightarrow> string \<Rightarrow> bool" where
  \<comment> \<open>the same, case-insensitively\<close>
  "contains_ci s n = contains (map tolower s) (map tolower n)"

definition first_nonempty :: "string option list \<Rightarrow> string" where
  \<comment> \<open>the first value that is set and non-empty; the empty string if there is none\<close>
  "first_nonempty vs =
     (case filter (\<lambda>v. v \<noteq> []) (map (\<lambda>v. case v of None \<Rightarrow> [] | Some x \<Rightarrow> x) vs) of
        [] \<Rightarrow> []
      | v # _ \<Rightarrow> v)"

definition last_optarg :: "char \<Rightarrow> (char \<times> string) list \<Rightarrow> string option" where
  \<comment> \<open>the argument of the last occurrence of an option on the command line\<close>
  "last_optarg c opts =
     (case filter (\<lambda>(opt, optarg). opt = c) (rev opts) of
        [] \<Rightarrow> None
      | (opt, optarg) # _ \<Rightarrow> Some optarg)"

definition given :: "char \<Rightarrow> (char \<times> string) list \<Rightarrow> bool" where
  \<comment> \<open>the option occurs on the command line\<close>
  "given c opts = list_ex (\<lambda>(opt, optarg). opt = c) opts"

definition tmux_socket :: "(string \<rightharpoonup> string) \<Rightarrow> string option" where
  \<comment> \<open>the part of \<open>TMUX\<close> before the first comma, when \<open>TMUX\<close> is set, non-empty
      and does not begin with a comma\<close>
  "tmux_socket e =
     (case e ''TMUX'' of
        None \<Rightarrow> None
      | Some v \<Rightarrow>
          if v \<noteq> [] \<and> \<not> starts_with v '','' then Some (takeWhile (\<lambda>c. c \<noteq> CHR '','') v)
          else None)"

definition runtime_dir :: "hdr \<Rightarrow> os \<Rightarrow> (string \<rightharpoonup> string) \<Rightarrow> string" where
  \<comment> \<open>\<open>{TMUX_TMPDIR, or the system temp directory}/tmate-{numeric uid}\<close>\<close>
  "runtime_dir h os e =
     (case e ''TMUX_TMPDIR'' of
        None \<Rightarrow> PATH_TMP h
      | Some d \<Rightarrow> if d = [] then PATH_TMP h else d)
     @ ''/tmate-'' @ fmt_u (unat (os_getuid os))"

definition canonical_dir :: "hdr \<Rightarrow> os \<Rightarrow> (string \<rightharpoonup> string) \<Rightarrow> string" where
  \<comment> \<open>the runtime directory as \<open>realpath\<close> gives it; when \<open>realpath\<close> fails, the
      uncanonicalized path as it fits in a buffer of \<open>PATH_MAX\<close> bytes\<close>
  "canonical_dir h os e =
     (case os_realpath os (runtime_dir h os e) of
        Some r \<Rightarrow> r
      | None \<Rightarrow> take (PATH_MAX h - 1) (runtime_dir h os e))"

definition dir_created :: "hdr \<Rightarrow> os \<Rightarrow> (string \<rightharpoonup> string) \<Rightarrow> bool" where
  \<comment> \<open>the runtime directory was absent and \<open>mkdir\<close> creates it\<close>
  "dir_created h os e = (os_mkdir os (runtime_dir h os e) S_IRWXU = None)"

definition dir_exists :: "hdr \<Rightarrow> os \<Rightarrow> (string \<rightharpoonup> string) \<Rightarrow> bool" where
  \<comment> \<open>the runtime directory already exists: \<open>mkdir\<close> says so\<close>
  "dir_exists h os e = (os_mkdir os (runtime_dir h os e) S_IRWXU = Some EEXIST)"

definition is_directory :: "hdr \<Rightarrow> os \<Rightarrow> (string \<rightharpoonup> string) \<Rightarrow> stat \<Rightarrow> bool" where
  \<comment> \<open>\<open>lstat\<close> finds a directory with the given status at the runtime directory's path\<close>
  "is_directory h os e sb =
     (os_lstat os (runtime_dir h os e) = Inr sb \<and> S_ISDIR (st_mode sb))"

definition handoff :: "string \<Rightarrow> string option \<Rightarrow> event list" where
  \<comment> \<open>the delivery of one deferred option: nothing for a value that was not captured;
      otherwise one set-option command, after which the value is released\<close>
  "handoff name val =
     (case val of
        None \<Rightarrow> []
      | Some v \<Rightarrow> [Run_headless_command [''set-option'', name, v], Free v])"

definition client_socket_path :: "outcome \<Rightarrow> string option" where
  \<comment> \<open>the socket path in place when \<open>client_main\<close> is called, if it is called\<close>
  "client_socket_path out =
     (case out of Client_main s args \<Rightarrow> socket_path s | Exit status out err s \<Rightarrow> None)"

definition editor_value :: "(string \<rightharpoonup> string) \<Rightarrow> string option" where
  \<comment> \<open>the value that is inspected: \<open>VISUAL\<close> if it is set, else \<open>EDITOR\<close>\<close>
  "editor_value e = (case e ''VISUAL'' of Some v \<Rightarrow> Some v | None \<Rightarrow> e ''EDITOR'')"

definition keymap :: "hdr \<Rightarrow> string \<Rightarrow> opt_value" where
  \<comment> \<open>vi if the basename of the value contains \<open>vi\<close>, emacs otherwise\<close>
  "keymap h v =
     OptNumber (if contains (last_component v) ''vi'' then MODEKEY_VI h else MODEKEY_EMACS h)"

definition exit_report :: "outcome \<Rightarrow> (int \<times> string) option" where
  \<comment> \<open>the exit status and what was written to standard error, if \<open>main\<close> exits itself\<close>
  "exit_report out =
     (case out of Exit status out err s \<Rightarrow> Some (status, err) | Client_main s args \<Rightarrow> None)"

definition client_state :: "hdr \<Rightarrow> os \<Rightarrow> state \<Rightarrow> string \<Rightarrow> state" where
  \<comment> \<open>the state in which \<open>client_main\<close> is called, from the state \<open>s\<close> the option
      loop leaves and the socket path \<open>p\<close>\<close>
  "client_state h os s p =
     (override_keys h (create_globals h os (s\<lparr>flags := utf8_flags h (env s) (flags s)\<rparr>)))
       \<lparr>socket_path := Some p\<rparr>"

definition has_bits :: "32 word \<Rightarrow> 32 word \<Rightarrow> bool" where
  \<comment> \<open>a flag set contains a flag: all bits of the flag are set\<close>
  "has_bits fl c = (fl AND c = c)"

section \<open>A concrete system, for the examples\<close>

definition hdr_ex :: hdr where
  "hdr_ex =
     \<lparr>CLIENT_LOGIN = 0x2, CLIENT_CONTROL = 0x2000, CLIENT_CONTROLCONTROL = 0x4000,
      CLIENT_UTF8 = 0x10000, CLIENT_256COLOURS = 0x20000,
      MODEKEY_EMACS = 0, MODEKEY_VI = 1,
      OPTIONS_TABLE_SERVER = [''buffer-limit'' \<mapsto> OptNumber 20],
      OPTIONS_TABLE_SESSION =
        [''default-shell'' \<mapsto> OptString ''/bin/sh'', ''status-keys'' \<mapsto> OptNumber 0],
      OPTIONS_TABLE_WINDOW = [''mode-keys'' \<mapsto> OptNumber 0],
      PATH_TMP = ''/tmp/'', PATH_BSHELL = ''/bin/sh'', PATH_MAX = 4096,
      VERSION = ''2.4.0''\<rparr>"

definition os_ex :: os where
  "os_ex =
     \<lparr>os_getuid = 1000,
      os_environ = [''SHELL'' \<mapsto> ''/bin/bash'', ''LANG'' \<mapsto> ''C'',
                    ''VISUAL'' \<mapsto> ''/usr/bin/vim''],
      os_progname = ''tmate'',
      os_access_X_OK = (\<lambda>p. p = ''/bin/bash'' \<or> p = ''/bin/sh''),
      os_getpwuid = (\<lambda>u. if u = 1000
                          then Some \<lparr>pw_dir = ''/home/user'', pw_shell = ''/bin/zsh''\<rparr>
                          else None),
      os_mkdir = (\<lambda>p m. Some EEXIST),
      os_lstat = (\<lambda>p. if p = ''/tmp//tmate-1000''
                       then Inr \<lparr>st_mode = 0x41C0, st_uid = 1000\<rparr>
                       else Inl ENOENT),
      os_realpath = (\<lambda>p. if p = ''/tmp//tmate-1000'' then Some ''/tmp/tmate-1000'' else None),
      os_mktemp = (\<lambda>p. take (length p - 6) p @ ''k3J9aZ''),
      os_setlocale_ctype = (\<lambda>l. l = ''en_US.UTF-8''),
      os_nl_langinfo_codeset = ''UTF-8'',
      os_getcwd = Some ''/home/user'',
      os_strerror = (\<lambda>e. case e of
                            ENOENT \<Rightarrow> ''No such file or directory''
                          | EACCES \<Rightarrow> ''Permission denied''
                          | EEXIST \<Rightarrow> ''File exists''
                          | ENOTDIR \<Rightarrow> ''Not a directory''
                          | EOTHER n \<Rightarrow> ''Unknown error''),
      os_ssh_version = ''0.9.6''\<rparr>"

definition os_group_dir :: os where
  \<comment> \<open>the same system, the runtime directory having mode 0770\<close>
  "os_group_dir = os_ex\<lparr>os_lstat := (\<lambda>p. Inr \<lparr>st_mode = 0x41F8, st_uid = 1000\<rparr>)\<rparr>"

definition os_foreign_dir :: os where
  \<comment> \<open>the same system, the runtime directory belonging to root\<close>
  "os_foreign_dir = os_ex\<lparr>os_lstat := (\<lambda>p. Inr \<lparr>st_mode = 0x41C0, st_uid = 0\<rparr>)\<rparr>"

definition os_first_run :: os where
  \<comment> \<open>the same system before the runtime directory exists: \<open>mkdir\<close> creates it\<close>
  "os_first_run = os_ex\<lparr>os_mkdir := (\<lambda>p m. None)\<rparr>"

definition os_inside_tmux :: os where
  \<comment> \<open>the same system, the client being started inside a session\<close>
  "os_inside_tmux =
     os_ex\<lparr>os_environ := (os_environ os_ex)(''TMUX'' \<mapsto> ''/tmp/tmate-1000/abc,4242,0'')\<rparr>"

section \<open>Facts about the string functions\<close>

lemma fmt_u_1000: "fmt_u 1000 = ''1000''" by code_simp

lemma fmt_u_decimal: "foldl (\<lambda>a c. 10 * a + (of_char c - 48)) 0 (fmt_u n) = n"
proof (induction n rule: fmt_u.induct)
  case (1 n)
  show ?case
  proof (cases "n < 10")
    case True
    then show ?thesis by (subst fmt_u.simps) simp
  next
    case False
    with 1 show ?thesis by (subst fmt_u.simps) simp
  qed
qed

lemma strrchr_None: "(strrchr s c = None) = (c \<notin> set s)"
  by (induction s) (auto split: option.splits)

lemma strrchr_component:
  "(case strrchr s c of Some p \<Rightarrow> tl p | None \<Rightarrow> s) = rev (takeWhile (\<lambda>x. x \<noteq> c) (rev s))"
proof (induction s)
  case Nil
  then show ?case by simp
next
  case (Cons x xs)
  show ?case
  proof (cases "strrchr xs c")
    case None
    then have "c \<notin> set xs" by (simp add: strrchr_None)
    then have "takeWhile (\<lambda>x. x \<noteq> c) (rev xs @ [x]) = rev xs @ takeWhile (\<lambda>x. x \<noteq> c) [x]"
      by (intro takeWhile_append2) auto
    with None show ?thesis by simp
  next
    case (Some r)
    then have "c \<in> set (rev xs)" using strrchr_None [of xs c] by simp
    then have "takeWhile (\<lambda>x. x \<noteq> c) (rev xs @ [x]) = takeWhile (\<lambda>x. x \<noteq> c) (rev xs)"
      by (intro takeWhile_append1) auto
    with Some Cons show ?thesis by simp
  qed
qed

lemma areshell_last_component:
  "areshell os shell = (last_component shell = strip_dash (os_progname os))"
  by (simp add: areshell_def last_component_def strip_dash_def strrchr_component
      split: list.splits)

lemma starts_with_take: "starts_with s n = (take (length n) s = n)"
  by (induction s n rule: starts_with.induct) auto

lemma contains_Nil: "contains [] n = (n = [])"
  by (auto simp: contains_def)

lemma contains_Cons: "contains (c # cs) n = (take (length n) (c # cs) = n \<or> contains cs n)"
  unfolding contains_def list_ex_iff set_upt Bex_def
  by (simp add: Ex_less_Suc2 del: upt_Suc)

lemma strstr_contains: "(strstr s n \<noteq> None) = contains s n"
  by (induction s) (auto simp: contains_Nil contains_Cons starts_with_take)

lemma strcasestr_contains_ci: "(strcasestr s n \<noteq> None) = contains_ci s n"
  unfolding contains_ci_def
  by (induction s) (auto simp: contains_Nil contains_Cons starts_with_take take_map)

lemma contains_iff: "contains s n = (\<exists>a b. s = a @ n @ b)"
proof
  assume "contains s n"
  then obtain i where "take (length n) (drop i s) = n"
    by (auto simp: contains_def list_ex_iff)
  then have "s = take i s @ n @ drop (length n) (drop i s)"
    by (metis append_take_drop_id)
  then show "\<exists>a b. s = a @ n @ b" by blast
next
  assume "\<exists>a b. s = a @ n @ b"
  then obtain a b where s: "s = a @ n @ b" by blast
  then have "take (length n) (drop (length a) s) = n" by simp
  moreover have "length a < Suc (length s)" using s by simp
  ultimately show "contains s n"
    unfolding contains_def list_ex_iff by (metis atLeast_upt lessThan_iff)
qed

lemma strcspn_comma: "take (strcspn s '','') s = takeWhile (\<lambda>c. c \<noteq> CHR '','') s"
  by (simp add: strcspn_def takeWhile_eq_take [symmetric])

section \<open>Facts about the option loop\<close>

lemma last_optarg_Nil: "last_optarg c [] = None"
  by (simp add: last_optarg_def)

lemma last_optarg_Cons:
  "last_optarg c ((opt, optarg) # rest) =
     (case last_optarg c rest of
        Some a \<Rightarrow> Some a
      | None \<Rightarrow> if opt = c then Some optarg else None)"
  by (simp add: last_optarg_def split: list.splits prod.splits)

lemma given_Nil: "given c [] = False"
  by (simp add: given_def)

lemma given_Cons: "given c ((opt, optarg) # rest) = (opt = c \<or> given c rest)"
  by (simp add: given_def)

lemma given_last_optarg: "given c opts = (last_optarg c opts \<noteq> None)"
  by (induction opts) (auto simp: given_Nil given_Cons last_optarg_Nil last_optarg_Cons split: option.splits)

lemma parse_opts_field:
  assumes step: "\<And>c a s s'. opt_step h os c a s = Inr s' \<Longrightarrow> f s' = (if c = k then Some a else f s)"
    and "parse_opts h os opts s = Inr s'"
  shows "f s' = (case last_optarg k opts of Some a \<Rightarrow> Some a | None \<Rightarrow> f s)"
  using assms(2)
proof (induction opts arbitrary: s)
  case Nil
  then show ?case by (simp add: last_optarg_Nil)
next
  case (Cons x rest)
  obtain c a where x: "x = (c, a)" by (cases x)
  from Cons.prems x obtain s1 where s1: "opt_step h os c a s = Inr s1"
    and rest: "parse_opts h os rest s1 = Inr s'"
    by (auto split: sum.splits)
  from Cons.IH [OF rest] step [OF s1] show ?case
    by (simp add: x last_optarg_Cons split: option.splits)
qed

lemma opt_step_path:
  "opt_step h os c a s = Inr s' \<Longrightarrow> path s' = (if c = CHR ''S'' then Some a else path s)"
  by (auto simp: opt_step_def split: if_splits)

lemma opt_step_label:
  "opt_step h os c a s = Inr s' \<Longrightarrow> label s' = (if c = CHR ''L'' then Some a else label s)"
  by (auto simp: opt_step_def split: if_splits)

lemma opt_step_shellcmd:
  "opt_step h os c a s = Inr s' \<Longrightarrow> shellcmd s' = (if c = CHR ''c'' then Some a else shellcmd s)"
  by (auto simp: opt_step_def split: if_splits)

lemma opt_step_api_key:
  "opt_step h os c a s = Inr s' \<Longrightarrow> api_key s' = (if c = CHR ''k'' then Some a else api_key s)"
  by (auto simp: opt_step_def split: if_splits)

lemma opt_step_session_name:
  "opt_step h os c a s = Inr s' \<Longrightarrow>
     session_name s' = (if c = CHR ''n'' then Some a else session_name s)"
  by (auto simp: opt_step_def split: if_splits)

lemma opt_step_session_name_ro:
  "opt_step h os c a s = Inr s' \<Longrightarrow>
     session_name_ro s' = (if c = CHR ''r'' then Some a else session_name_ro s)"
  by (auto simp: opt_step_def split: if_splits)

lemma opt_step_authorized_keys:
  "opt_step h os c a s = Inr s' \<Longrightarrow>
     authorized_keys s' = (if c = CHR ''a'' then Some a else authorized_keys s)"
  by (auto simp: opt_step_def split: if_splits)

lemma opt_step_env:
  "opt_step h os c a s = Inr s' \<Longrightarrow>
     env s' = (if c = CHR ''F'' then (env s)(''TMUX'' := None) else env s)"
  by (auto simp: opt_step_def split: if_splits)

lemma parse_opts_env:
  "parse_opts h os opts s = Inr s' \<Longrightarrow>
     env s' = (if given CHR ''F'' opts then (env s)(''TMUX'' := None) else env s)"
proof (induction opts arbitrary: s)
  case Nil
  then show ?case by (simp add: given_Nil)
next
  case (Cons x rest)
  obtain c a where x: "x = (c, a)" by (cases x)
  from Cons.prems x obtain s1 where s1: "opt_step h os c a s = Inr s1"
    and rest: "parse_opts h os rest s1 = Inr s'"
    by (auto split: sum.splits)
  from Cons.IH [OF rest] opt_step_env [OF s1] show ?case
    by (auto simp: x given_Cons)
qed

lemma has_bits_OR: "has_bits fl c \<Longrightarrow> has_bits (fl OR d) c"
  by (auto simp: has_bits_def bit_eq_iff bit_and_iff bit_or_iff)

lemma has_bits_OR_self: "has_bits (fl OR c) c"
  by (auto simp: has_bits_def bit_eq_iff bit_and_iff bit_or_iff)

lemma opt_step_flags:
  "opt_step h os c a s = Inr s' \<Longrightarrow> has_bits (flags s) b \<Longrightarrow> has_bits (flags s') b"
  by (auto simp: opt_step_def has_bits_OR split: if_splits)

lemma parse_opts_flags:
  "parse_opts h os opts s = Inr s' \<Longrightarrow> has_bits (flags s) b \<Longrightarrow> has_bits (flags s') b"
proof (induction opts arbitrary: s)
  case Nil
  then show ?case by simp
next
  case (Cons x rest)
  obtain c a where x: "x = (c, a)" by (cases x)
  from Cons.prems x obtain s1 where s1: "opt_step h os c a s = Inr s1"
    and rest: "parse_opts h os rest s1 = Inr s'"
    by (auto split: sum.splits)
  show ?case
    by (rule Cons.IH [OF rest opt_step_flags [OF s1 Cons.prems(2)]])
qed

lemma utf8_flags_mono: "has_bits fl b \<Longrightarrow> has_bits (utf8_flags h e fl) b"
  by (simp add: utf8_flags_def Let_def has_bits_OR)

lemma init_state_flags:
  "has_bits (flags (init_state h os argv0)) (CLIENT_256COLOURS h)"
  "has_bits (flags (init_state h os argv0)) (CLIENT_UTF8 h)"
  by (auto simp: init_state_def has_bits_def bit_eq_iff bit_and_iff bit_or_iff)

lemma opt_step_globals:
  "opt_step h os c a s = Inr s' \<Longrightarrow>
     global_hooks s' = global_hooks s \<and> global_environ s' = global_environ s \<and>
     global_options s' = global_options s \<and> global_s_options s' = global_s_options s \<and>
     global_w_options s' = global_w_options s \<and> socket_path s' = socket_path s"
  by (auto simp: opt_step_def split: if_splits)

lemma parse_opts_globals:
  "parse_opts h os opts s = Inr s' \<Longrightarrow>
     global_hooks s' = global_hooks s \<and> global_environ s' = global_environ s \<and>
     global_options s' = global_options s \<and> global_s_options s' = global_s_options s \<and>
     global_w_options s' = global_w_options s \<and> socket_path s' = socket_path s"
proof (induction opts arbitrary: s)
  case Nil
  then show ?case by simp
next
  case (Cons x rest)
  obtain c a where x: "x = (c, a)" by (cases x)
  from Cons.prems x obtain s1 where s1: "opt_step h os c a s = Inr s1"
    and rest: "parse_opts h os rest s1 = Inr s'"
    by (auto split: sum.splits)
  from opt_step_globals [OF s1] Cons.IH [OF rest] show ?case by simp
qed

lemma opt_step_Inr_iff:
  "(\<exists>s'. opt_step h os c a s = Inr s') = (c \<in> set ''2cCflLqSuvFknra'')"
  by (auto simp: opt_step_def usage_def)

lemma parse_opts_finishes_iff:
  "(\<exists>s'. parse_opts h os opts s = Inr s') =
     list_all (\<lambda>(c, a). c \<in> set ''2cCflLqSuvFknra'') opts"
proof (induction opts arbitrary: s)
  case Nil
  then show ?case by simp
next
  case (Cons x rest)
  obtain c a where x: "x = (c, a)" by (cases x)
  show ?case
  proof (cases "opt_step h os c a s")
    case (Inl e)
    with opt_step_Inr_iff [of h os c a s] have "c \<notin> set ''2cCflLqSuvFknra''" by simp
    with Inl x show ?thesis by simp
  next
    case (Inr s1)
    with opt_step_Inr_iff [of h os c a s] have "c \<in> set ''2cCflLqSuvFknra''" by blast
    with Inr x Cons.IH [of s1] show ?thesis by simp
  qed
qed

lemma tmux_socket_whole:
  "e ''TMUX'' = Some v \<Longrightarrow> v \<noteq> [] \<Longrightarrow> CHR '','' \<notin> set v \<Longrightarrow> tmux_socket e = Some v"
  by (cases v) (auto simp: tmux_socket_def)

section \<open>Facts about main\<close>

lemma locate_socket_cong:
  assumes "path s = path t" and "label s = label t" and "env s = env t"
  shows "locate_socket h os s = locate_socket h os t"
  unfolding locate_socket_def assms ..

lemma override_keys_fields:
  "path (override_keys h s) = path s" "label (override_keys h s) = label s"
  "env (override_keys h s) = env s" "flags (override_keys h s) = flags s"
  "shellcmd (override_keys h s) = shellcmd s"
  "socket_path (override_keys h s) = socket_path s"
  by (simp_all add: override_keys_def Let_def split: option.splits)

lemma create_globals_fields:
  "path (create_globals h os s) = path s" "label (create_globals h os s) = label s"
  "env (create_globals h os s) = env s" "flags (create_globals h os s) = flags s"
  "shellcmd (create_globals h os s) = shellcmd s"
  "socket_path (create_globals h os s) = socket_path s"
  by (simp_all add: create_globals_def)

lemma opt_step_Inl:
  "opt_step h os c a s = Inl e \<Longrightarrow>
     e = usage os s \<or>
     e = Exit 0 (os_progname os @ '' '' @ VERSION h @ nl @ ''libssh '' @ os_ssh_version os @ nl) [] s"
  by (auto simp: opt_step_def split: if_splits)

lemma parse_opts_Inl:
  "parse_opts h os opts s = Inl e \<Longrightarrow>
     \<exists>s1. (e = usage os s1 \<or>
           e = Exit 0 (os_progname os @ '' '' @ VERSION h @ nl @
                       ''libssh '' @ os_ssh_version os @ nl) [] s1)"
proof (induction opts arbitrary: s)
  case Nil
  then show ?case by simp
next
  case (Cons x rest)
  obtain c a where x: "x = (c, a)" by (cases x)
  show ?case
  proof (cases "opt_step h os c a s")
    case (Inl e1)
    with Cons.prems x have "e = e1" by simp
    with opt_step_Inl [OF Inl] show ?thesis by blast
  next
    case (Inr s1)
    with Cons.prems x have "parse_opts h os rest s1 = Inl e" by simp
    then show ?thesis by (rule Cons.IH)
  qed
qed

lemma parse_opts_not_Client_main: "parse_opts h os opts s \<noteq> Inl (Client_main s' a)"
  using parse_opts_Inl [of h os opts s "Client_main s' a"] by (auto simp: usage_def)

lemma client_state_fields:
  "socket_path (client_state h os s p) = Some p"
  "flags (client_state h os s p) = utf8_flags h (env s) (flags s)"
  "env (client_state h os s p) = env s"
  by (simp_all add: client_state_def override_keys_fields create_globals_fields)

lemma main_Client_main:
  assumes "main h os argv0 opts args = Client_main s' a"
  shows "\<exists>s p. init_locale os = None \<and>
           parse_opts h os opts (init_state h os argv0) = Inr s \<and>
           (shellcmd s = None \<or> args = []) \<and> a = args \<and>
           locate_socket h os s = Inr p \<and>
           s' = client_state h os s p"
proof -
  from assms obtain s where loc: "init_locale os = None"
    and s: "parse_opts h os opts (init_state h os argv0) = Inr s"
    by (auto simp: main_def errx_def parse_opts_not_Client_main split: option.splits sum.splits)
  let ?t = "override_keys h (create_globals h os (s\<lparr>flags := utf8_flags h (env s) (flags s)\<rparr>))"
  have same: "locate_socket h os ?t = locate_socket h os s"
    by (rule locate_socket_cong) (simp_all add: override_keys_fields create_globals_fields)
  from assms loc s have "(shellcmd s = None \<or> args = []) \<and> a = args \<and>
      (\<exists>p. locate_socket h os ?t = Inr p \<and> s' = ?t\<lparr>socket_path := Some p\<rparr>)"
    by (auto simp: main_def usage_def Let_def split: if_splits sum.splits)
  with loc s same show ?thesis by (auto simp: client_state_def)
qed

lemma main_eq_Client_main:
  assumes "init_locale os = None"
    and "parse_opts h os opts (init_state h os argv0) = Inr s"
    and "shellcmd s = None \<or> args = []"
    and "locate_socket h os s = Inr p"
  shows "main h os argv0 opts args = Client_main (client_state h os s p) args"
proof -
  let ?t = "override_keys h (create_globals h os (s\<lparr>flags := utf8_flags h (env s) (flags s)\<rparr>))"
  have same: "locate_socket h os ?t = locate_socket h os s"
    by (rule locate_socket_cong) (simp_all add: override_keys_fields create_globals_fields)
  with assms show ?thesis
    by (auto simp: main_def Let_def client_state_def)
qed

lemma locale_value_first_nonempty:
  "locale_value e = first_nonempty [e ''LC_ALL'', e ''LC_CTYPE'', e ''LANG'']"
  by (auto simp: locale_value_def first_nonempty_def Let_def split: option.splits)

lemma init_state_fields:
  "path (init_state h os argv0) = None" "label (init_state h os argv0) = None"
  "shellcmd (init_state h os argv0) = None" "env (init_state h os argv0) = os_environ os"
  "api_key (init_state h os argv0) = None" "session_name (init_state h os argv0) = None"
  "session_name_ro (init_state h os argv0) = None"
  "authorized_keys (init_state h os argv0) = None"
  "global_hooks (init_state h os argv0) = None" "global_environ (init_state h os argv0) = None"
  "global_options (init_state h os argv0) = None"
  "global_s_options (init_state h os argv0) = None"
  "global_w_options (init_state h os argv0) = None"
  "socket_path (init_state h os argv0) = None"
  by (simp_all add: init_state_def)

lemma parse_opts_init:
  assumes "parse_opts h os opts (init_state h os argv0) = Inr s"
  shows "path s = last_optarg CHR ''S'' opts" "label s = last_optarg CHR ''L'' opts"
    "shellcmd s = last_optarg CHR ''c'' opts" "api_key s = last_optarg CHR ''k'' opts"
    "session_name s = last_optarg CHR ''n'' opts"
    "session_name_ro s = last_optarg CHR ''r'' opts"
    "authorized_keys s = last_optarg CHR ''a'' opts"
  using parse_opts_field [where f = path, OF opt_step_path assms]
    parse_opts_field [where f = label, OF opt_step_label assms]
    parse_opts_field [where f = shellcmd, OF opt_step_shellcmd assms]
    parse_opts_field [where f = api_key, OF opt_step_api_key assms]
    parse_opts_field [where f = session_name, OF opt_step_session_name assms]
    parse_opts_field [where f = session_name_ro, OF opt_step_session_name_ro assms]
    parse_opts_field [where f = authorized_keys, OF opt_step_authorized_keys assms]
  by (simp_all add: init_state_fields split: option.splits)

lemma locate_socket_eq:
  "locate_socket h os s =
     (case path s of
        Some p \<Rightarrow> Inr p
      | None \<Rightarrow>
          (case (if label s = None then tmux_socket (env s) else None) of
             Some p \<Rightarrow> Inr p
           | None \<Rightarrow> make_label h os (env s) (label s)))"
  by (auto simp: locate_socket_def tmux_socket_def strcspn_comma Let_def
      split: option.splits list.splits)

lemma getshell_cong: "e ''SHELL'' = e' ''SHELL'' \<Longrightarrow> getshell h os e = getshell h os e'"
  by (simp add: getshell_def)

lemma override_keys_eq:
  "override_keys h s =
     (case editor_value (env s) of
        None \<Rightarrow> s
      | Some v \<Rightarrow>
          s\<lparr>global_s_options :=
                map_option (\<lambda>t. t(''status-keys'' \<mapsto> keymap h v)) (global_s_options s),
            global_w_options :=
                map_option (\<lambda>t. t(''mode-keys'' \<mapsto> keymap h v)) (global_w_options s)\<rparr>)"
proof -
  have k: "OptNumber (if strstr (case strrchr v CHR ''/'' of Some p \<Rightarrow> tl p | None \<Rightarrow> v) ''vi'' \<noteq> None
                      then MODEKEY_VI h else MODEKEY_EMACS h) = keymap h v" for v
    unfolding strstr_contains keymap_def last_component_def strrchr_component ..
  show ?thesis
    unfolding override_keys_def editor_value_def options_set_number_def Let_def k [symmetric]
    by (simp split: option.splits)
qed

lemma make_label_eq:
  "make_label h os e l0 =
     (case (case os_mkdir os (runtime_dir h os e) S_IRWXU of
              Some er \<Rightarrow> if er \<noteq> EEXIST then Some er else None
            | None \<Rightarrow> None) of
        Some er \<Rightarrow> Inl er
      | None \<Rightarrow>
          (case os_lstat os (runtime_dir h os e) of
             Inl er \<Rightarrow> Inl er
           | Inr sb \<Rightarrow>
               if \<not> S_ISDIR (st_mode sb) then Inl ENOTDIR
               else if st_uid sb \<noteq> os_getuid os \<or> st_mode sb AND S_IRWXO \<noteq> 0 then Inl EACCES
               else Inr (case l0 of
                           Some l \<Rightarrow> canonical_dir h os e @ ''/'' @ l
                         | None \<Rightarrow> os_mktemp os (canonical_dir h os e @ ''/XXXXXX''))))"
proof -
  have base: "(case e ''TMUX_TMPDIR'' of
                 Some (c # cs) \<Rightarrow> (c # cs) @ ''/tmate-'' @ fmt_u (unat (os_getuid os))
               | _ \<Rightarrow> PATH_TMP h @ ''/tmate-'' @ fmt_u (unat (os_getuid os))) = runtime_dir h os e"
    by (simp add: runtime_dir_def split: option.splits list.splits)
  show ?thesis
    unfolding make_label_def Let_def base canonical_dir_def strlcpy_def
    by (simp split: option.splits sum.splits)
qed

lemma make_label_usable:
  assumes "dir_created h os e \<or> dir_exists h os e"
    and "is_directory h os e sb"
  shows "make_label h os e l0 =
           (if st_uid sb \<noteq> os_getuid os \<or> st_mode sb AND S_IRWXO \<noteq> 0 then Inl EACCES
            else Inr (case l0 of
                        Some l \<Rightarrow> canonical_dir h os e @ ''/'' @ l
                      | None \<Rightarrow> os_mktemp os (canonical_dir h os e @ ''/XXXXXX'')))"
  using assms unfolding make_label_eq dir_created_def dir_exists_def is_directory_def
  by auto

section \<open>Facts about the concrete system\<close>

lemma init_locale_ex: "init_locale os_ex = None"
  by (simp add: init_locale_def os_ex_def)

lemma runtime_dir_ex: "runtime_dir hdr_ex os_ex (os_environ os_ex) = ''/tmp//tmate-1000''"
  by (simp add: runtime_dir_def hdr_ex_def os_ex_def fmt_u_1000)

lemma canonical_dir_ex: "canonical_dir hdr_ex os_ex (os_environ os_ex) = ''/tmp/tmate-1000''"
  unfolding canonical_dir_def runtime_dir_ex by (simp add: os_ex_def)

lemma keymap_vim: "keymap hdr_ex ''/usr/bin/vim'' = OptNumber 1"
  by code_simp

lemma contains_ci_C: "\<not> contains_ci ''C'' ''UTF-8''" "\<not> contains_ci ''C'' ''UTF8''"
  by code_simp+

lemma variant_fields:
  "os_getuid os_group_dir = 1000" "os_environ os_group_dir = os_environ os_ex"
  "os_getuid os_foreign_dir = 1000" "os_environ os_foreign_dir = os_environ os_ex"
  "os_getuid os_first_run = 1000" "os_environ os_first_run = os_environ os_ex"
  "os_realpath os_first_run = os_realpath os_ex"
  "os_getuid os_ex = 1000"
  by (simp_all add: os_group_dir_def os_foreign_dir_def os_first_run_def os_ex_def)

lemma runtime_dir_variants:
  "runtime_dir hdr_ex os_group_dir (os_environ os_ex) = ''/tmp//tmate-1000''"
  "runtime_dir hdr_ex os_foreign_dir (os_environ os_ex) = ''/tmp//tmate-1000''"
  "runtime_dir hdr_ex os_first_run (os_environ os_ex) = ''/tmp//tmate-1000''"
  using runtime_dir_ex by (simp_all add: runtime_dir_def variant_fields)

lemma init_locale_variants:
  "init_locale os_group_dir = None" "init_locale os_foreign_dir = None"
  "init_locale os_inside_tmux = None"
  by (simp_all add: init_locale_def os_group_dir_def os_foreign_dir_def os_inside_tmux_def
      os_ex_def)

lemma dir_ex:
  "dir_exists hdr_ex os_ex (os_environ os_ex)"
  "is_directory hdr_ex os_ex (os_environ os_ex) \<lparr>st_mode = 0x41C0, st_uid = 1000\<rparr>"
  unfolding dir_exists_def is_directory_def runtime_dir_ex
  by (simp_all add: os_ex_def S_ISDIR_def S_IFMT_def S_IFDIR_def)

lemma S_IRWXO_ex: "(0x41C0 :: 32 word) AND S_IRWXO = 0" "(0x41F8 :: 32 word) AND S_IRWXO = 0"
  by (simp_all add: S_IRWXO_def)

lemma mktemp_ex: "os_mktemp os_ex p = take (length p - 6) p @ ''k3J9aZ''"
  by (simp add: os_ex_def)

lemma make_label_ex:
  "make_label hdr_ex os_ex (os_environ os_ex) (Some l) = Inr (''/tmp/tmate-1000/'' @ l)"
  "make_label hdr_ex os_ex (os_environ os_ex) None = Inr ''/tmp/tmate-1000/k3J9aZ''"
proof -
  have ml: "make_label hdr_ex os_ex (os_environ os_ex) l0 =
      Inr (case l0 of
             Some l \<Rightarrow> canonical_dir hdr_ex os_ex (os_environ os_ex) @ ''/'' @ l
           | None \<Rightarrow> os_mktemp os_ex (canonical_dir hdr_ex os_ex (os_environ os_ex) @ ''/XXXXXX''))"
    for l0
    using make_label_usable [OF disjI2 [OF dir_ex(1)] dir_ex(2)]
    by (simp add: variant_fields S_IRWXO_ex)
  show "make_label hdr_ex os_ex (os_environ os_ex) (Some l) = Inr (''/tmp/tmate-1000/'' @ l)"
    using ml [of "Some l"] by (simp add: canonical_dir_ex)
  show "make_label hdr_ex os_ex (os_environ os_ex) None = Inr ''/tmp/tmate-1000/k3J9aZ''"
    using ml [of None] by (simp add: canonical_dir_ex mktemp_ex)
qed

lemma environ_ex:
  "os_environ os_ex ''TMUX'' = None" "os_environ os_ex ''SHELL'' = Some ''/bin/bash''"
  "os_environ os_ex ''VISUAL'' = Some ''/usr/bin/vim''"
  "os_environ os_ex ''LC_ALL'' = None" "os_environ os_ex ''LC_CTYPE'' = None"
  "os_environ os_ex ''LANG'' = Some ''C''"
  by (simp_all add: os_ex_def)

lemma parse_opts_one:
  "parse_opts h os [(CHR ''L'', l)] s = Inr (s\<lparr>label := Some l\<rparr>)"
  "parse_opts h os [(CHR ''c'', l)] s = Inr (s\<lparr>shellcmd := Some l\<rparr>)"
  "parse_opts h os [(CHR ''k'', k), (CHR ''n'', n)] s =
     Inr (s\<lparr>api_key := Some k, session_name := Some n\<rparr>)"
  by (simp_all add: opt_step_def)

lemma run_ex:
  "main hdr_ex os_ex ''tmate'' [] [] =
     Client_main (client_state hdr_ex os_ex (init_state hdr_ex os_ex ''tmate'')
                    ''/tmp/tmate-1000/k3J9aZ'') []"
proof (rule main_eq_Client_main)
  show "init_locale os_ex = None" by (rule init_locale_ex)
  show "parse_opts hdr_ex os_ex [] (init_state hdr_ex os_ex ''tmate'') =
          Inr (init_state hdr_ex os_ex ''tmate'')" by simp
  show "shellcmd (init_state hdr_ex os_ex ''tmate'') = None \<or> [] = []" by simp
  show "locate_socket hdr_ex os_ex (init_state hdr_ex os_ex ''tmate'') =
          Inr ''/tmp/tmate-1000/k3J9aZ''"
    by (simp add: locate_socket_eq init_state_fields tmux_socket_def environ_ex make_label_ex)
qed

lemma inside_tmux_fields:
  "os_getuid os_inside_tmux = os_getuid os_ex" "os_mkdir os_inside_tmux = os_mkdir os_ex"
  "os_lstat os_inside_tmux = os_lstat os_ex" "os_realpath os_inside_tmux = os_realpath os_ex"
  "os_mktemp os_inside_tmux = os_mktemp os_ex"
  by (simp_all add: os_inside_tmux_def)

lemma make_label_inside_tmux:
  "make_label hdr_ex os_inside_tmux e l = make_label hdr_ex os_ex e l"
  unfolding make_label_def inside_tmux_fields ..

lemma dir_variants:
  "dir_exists hdr_ex os_group_dir (os_environ os_ex)"
  "is_directory hdr_ex os_group_dir (os_environ os_ex) \<lparr>st_mode = 0x41F8, st_uid = 1000\<rparr>"
  "dir_exists hdr_ex os_foreign_dir (os_environ os_ex)"
  "is_directory hdr_ex os_foreign_dir (os_environ os_ex) \<lparr>st_mode = 0x41C0, st_uid = 0\<rparr>"
  "dir_created hdr_ex os_first_run (os_environ os_ex)"
  "is_directory hdr_ex os_first_run (os_environ os_ex) \<lparr>st_mode = 0x41C0, st_uid = 1000\<rparr>"
  unfolding dir_exists_def dir_created_def is_directory_def runtime_dir_variants
  by (simp_all add: os_group_dir_def os_foreign_dir_def os_first_run_def os_ex_def
      S_ISDIR_def S_IFMT_def S_IFDIR_def)

lemma strerror_ex: "os_strerror os_foreign_dir EACCES = ''Permission denied''"
  by (simp add: os_foreign_dir_def os_ex_def)

lemma os_ex_shell_facts:
  "os_progname os_ex = ''tmate''"
  "os_access_X_OK os_ex p = (p = ''/bin/bash'' \<or> p = ''/bin/sh'')"
  "os_getpwuid os_ex 1000 = Some \<lparr>pw_dir = ''/home/user'', pw_shell = ''/bin/zsh''\<rparr>"
  by (simp_all add: os_ex_def)

lemma contains_ci_utf8: "contains_ci ''en_US.utf8'' ''UTF8''" "contains_ci ''fr_FR.UTF-8'' ''UTF-8''"
  by code_simp+

lemma run_work_ex:
  "main hdr_ex os_ex ''tmate'' [(CHR ''L'', ''work'')] [] =
     Client_main (client_state hdr_ex os_ex
                    ((init_state hdr_ex os_ex ''tmate'')\<lparr>label := Some ''work''\<rparr>)
                    ''/tmp/tmate-1000/work'') []"
proof (rule main_eq_Client_main)
  let ?s = "(init_state hdr_ex os_ex ''tmate'')\<lparr>label := Some ''work''\<rparr>"
  show "init_locale os_ex = None" by (rule init_locale_ex)
  show "parse_opts hdr_ex os_ex [(CHR ''L'', ''work'')] (init_state hdr_ex os_ex ''tmate'') = Inr ?s"
    by (rule parse_opts_one)
  show "shellcmd ?s = None \<or> [] = []" by simp
  show "locate_socket hdr_ex os_ex ?s = Inr ''/tmp/tmate-1000/work''"
    by (simp add: locate_socket_eq init_state_fields make_label_ex)
qed

section \<open>The claims of the specification\<close>

subsection \<open>C1: precedence of the socket path\<close>

text \<open>
  Claim C1. Let the option loop of \<open>main\<close> finish, in state \<open>s\<close>. The socket path is
  then resolved in this order: if \<open>-S\<close> was given, it is the argument of \<open>-S\<close>, verbatim
  (of the last \<open>-S\<close>, if there are several); otherwise, if no \<open>-L\<close> was given and
  \<open>TMUX\<close> is set, non-empty and does not begin with a comma, it is the part of the value of
  \<open>TMUX\<close> before the first comma (the whole value if it has no comma); otherwise it is
  what \<open>make_label\<close> derives from the label. The environment read is the one the option
  loop leaves: \<open>-F\<close> removes \<open>TMUX\<close> from it, and nothing else changes it. Whenever
  \<open>main\<close> reaches \<open>client_main\<close>, the socket path in place is this path.
\<close>

theorem socket_path_precedence:
  assumes "parse_opts h os opts (init_state h os argv0) = Inr s"
  shows "locate_socket h os s =
           (case last_optarg CHR ''S'' opts of
              Some p \<Rightarrow> Inr p
            | None \<Rightarrow>
                (case (if last_optarg CHR ''L'' opts = None then tmux_socket (env s) else None) of
                   Some p \<Rightarrow> Inr p
                 | None \<Rightarrow> make_label h os (env s) (last_optarg CHR ''L'' opts)))
       \<and> env s = (if given CHR ''F'' opts then (os_environ os)(''TMUX'' := None)
                   else os_environ os)
       \<and> (\<forall>s' a. main h os argv0 opts args = Client_main s' a \<longrightarrow>
            (\<exists>p. socket_path s' = Some p \<and> locate_socket h os s = Inr p))"
proof -
  have 1: "locate_socket h os s =
           (case last_optarg CHR ''S'' opts of
              Some p \<Rightarrow> Inr p
            | None \<Rightarrow>
                (case (if last_optarg CHR ''L'' opts = None then tmux_socket (env s) else None) of
                   Some p \<Rightarrow> Inr p
                 | None \<Rightarrow> make_label h os (env s) (last_optarg CHR ''L'' opts)))"
    unfolding locate_socket_eq parse_opts_init [OF assms] ..
  have 2: "env s = (if given CHR ''F'' opts then (os_environ os)(''TMUX'' := None)
                   else os_environ os)"
    using parse_opts_env [OF assms] by (simp add: init_state_fields)
  have 3: "\<exists>p. socket_path s' = Some p \<and> locate_socket h os s = Inr p"
    if "main h os argv0 opts args = Client_main s' a" for s' a
    using main_Client_main [OF that] assms by (auto simp: client_state_fields)
  from 1 2 3 show ?thesis by blast
qed

text \<open>
  Instances: started inside a session whose \<open>TMUX\<close> is
  \<open>/tmp/tmate-1000/abc,4242,0\<close>, without options, the socket path is
  \<open>/tmp/tmate-1000/abc\<close>; started there with \<open>-F\<close>, which removes \<open>TMUX\<close> from
  the environment, it is the path \<open>make_label\<close> derives.
\<close>

theorem socket_path_precedence_witness:
  "parse_opts hdr_ex os_inside_tmux [] (init_state hdr_ex os_inside_tmux ''tmate'') =
     Inr (init_state hdr_ex os_inside_tmux ''tmate'')
   \<and> locate_socket hdr_ex os_inside_tmux (init_state hdr_ex os_inside_tmux ''tmate'') =
     Inr ''/tmp/tmate-1000/abc''
   \<and> parse_opts hdr_ex os_inside_tmux [(CHR ''F'', [])] (init_state hdr_ex os_inside_tmux ''tmate'') =
     Inr ((init_state hdr_ex os_inside_tmux ''tmate'')
            \<lparr>tmate_foreground := 1, log_level := 1, env := os_environ os_ex\<rparr>)
   \<and> locate_socket hdr_ex os_inside_tmux
        ((init_state hdr_ex os_inside_tmux ''tmate'')
            \<lparr>tmate_foreground := 1, log_level := 1, env := os_environ os_ex\<rparr>) =
     Inr ''/tmp/tmate-1000/k3J9aZ''"
proof -
  have p: "parse_opts hdr_ex os_inside_tmux [] (init_state hdr_ex os_inside_tmux ''tmate'') =
     Inr (init_state hdr_ex os_inside_tmux ''tmate'')" by simp
  have e: "os_environ os_inside_tmux ''TMUX'' = Some ''/tmp/tmate-1000/abc,4242,0''"
    by (simp add: os_inside_tmux_def)
  from socket_path_precedence [OF p, of "[]"]
  have 1: "locate_socket hdr_ex os_inside_tmux (init_state hdr_ex os_inside_tmux ''tmate'') =
     Inr ''/tmp/tmate-1000/abc''"
    by (simp add: last_optarg_def tmux_socket_def init_state_fields e)
  let ?s = "(init_state hdr_ex os_inside_tmux ''tmate'')
            \<lparr>tmate_foreground := 1, log_level := 1, env := os_environ os_ex\<rparr>"
  have u: "(os_environ os_inside_tmux)(''TMUX'' := None) = os_environ os_ex"
    using environ_ex(1) by (simp add: os_inside_tmux_def fun_upd_idem)
  have q: "parse_opts hdr_ex os_inside_tmux [(CHR ''F'', [])]
     (init_state hdr_ex os_inside_tmux ''tmate'') = Inr ?s"
    by (simp add: opt_step_def init_state_fields u) (simp add: init_state_def)
  from socket_path_precedence [OF q, of "[]", THEN conjunct1]
  have 2: "locate_socket hdr_ex os_inside_tmux ?s = Inr ''/tmp/tmate-1000/k3J9aZ''"
    by (simp add: last_optarg_def tmux_socket_def environ_ex make_label_inside_tmux make_label_ex)
  from p 1 q 2 show ?thesis by blast
qed

subsection \<open>C2: the check of an existing runtime directory\<close>

text \<open>
  Claim C2, as the code has it. Let \<open>main\<close> get as far as \<open>make_label\<close> (the locale
  is accepted, the option loop finishes, there is no usage error, no \<open>-S\<close> and no usable
  \<open>TMUX\<close>), and let the runtime directory already exist: \<open>mkdir\<close> answers
  \<open>EEXIST\<close> and \<open>lstat\<close> finds a directory. If the directory is not owned by the
  current user, or any of its permission bits for others (\<open>S_IRWXO\<close>: read, write or
  execute) is set, \<open>make_label\<close> fails with \<open>EACCES\<close> and the process exits with
  status 1 after writing \<open>can't create socket:\<close> and the text of that error to standard
  error, no socket path being set. If the directory is owned by the current user and none
  of the bits for others is set, it is used, whatever its permission bits for the group:
  \<open>make_label\<close> returns a path and \<open>client_main\<close> is called with it.
\<close>

theorem runtime_dir_security_check:
  assumes "init_locale os = None"
    and "parse_opts h os opts (init_state h os argv0) = Inr s"
    and "shellcmd s = None \<or> args = []"
    and "path s = None"
    and "label s \<noteq> None \<or> tmux_socket (env s) = None"
    and "dir_exists h os (env s)"
    and "is_directory h os (env s) sb"
  shows "(st_uid sb \<noteq> os_getuid os \<or> st_mode sb AND S_IRWXO \<noteq> 0 \<longrightarrow>
            make_label h os (env s) (label s) = Inl EACCES \<and>
            (\<exists>s'. main h os argv0 opts args =
                     Exit 1 [] (''can't create socket: '' @ os_strerror os EACCES @ nl) s' \<and>
                   socket_path s' = None))
       \<and> (st_uid sb = os_getuid os \<and> st_mode sb AND S_IRWXO = 0 \<longrightarrow>
            (\<exists>p. make_label h os (env s) (label s) = Inr p \<and>
                 client_socket_path (main h os argv0 opts args) = Some p))"
proof -
  let ?t = "override_keys h (create_globals h os (s\<lparr>flags := utf8_flags h (env s) (flags s)\<rparr>))"
  have ml: "make_label h os (env s) (label s) =
           (if st_uid sb \<noteq> os_getuid os \<or> st_mode sb AND S_IRWXO \<noteq> 0 then Inl EACCES
            else Inr (case label s of
                        Some l \<Rightarrow> canonical_dir h os (env s) @ ''/'' @ l
                      | None \<Rightarrow> os_mktemp os (canonical_dir h os (env s) @ ''/XXXXXX'')))"
    using assms(6,7) by (intro make_label_usable) auto
  have ls: "locate_socket h os s = make_label h os (env s) (label s)"
    using assms(4,5) by (auto simp: locate_socket_eq)
  have same: "locate_socket h os ?t = locate_socket h os s"
    by (rule locate_socket_cong) (simp_all add: override_keys_fields create_globals_fields)
  have sp: "socket_path ?t = None"
    using parse_opts_globals [OF assms(2)]
    by (simp add: override_keys_fields create_globals_fields init_state_fields)
  have bad: "main h os argv0 opts args =
        Exit 1 [] (''can't create socket: '' @ os_strerror os EACCES @ nl) ?t"
    if "st_uid sb \<noteq> os_getuid os \<or> st_mode sb AND S_IRWXO \<noteq> 0"
    using assms(1,2,3) that same ls ml by (auto simp: main_def Let_def)
  have good: "\<exists>p. make_label h os (env s) (label s) = Inr p \<and>
                 client_socket_path (main h os argv0 opts args) = Some p"
    if "st_uid sb = os_getuid os \<and> st_mode sb AND S_IRWXO = 0"
  proof -
    from that ml obtain p where p: "make_label h os (env s) (label s) = Inr p" by auto
    with ls have "locate_socket h os s = Inr p" by simp
    from main_eq_Client_main [OF assms(1,2,3) this] p show ?thesis
      by (simp add: client_socket_path_def client_state_fields)
  qed
  from bad good ml sp show ?thesis by auto
qed

text \<open>
  An instance: the runtime directory exists and belongs to root; \<open>tmate -L work\<close> run by
  user 1000 exits with status 1 and reports the permission error.
\<close>

theorem runtime_dir_security_check_witness:
  "parse_opts hdr_ex os_foreign_dir [(CHR ''L'', ''work'')]
     (init_state hdr_ex os_foreign_dir ''tmate'') =
     Inr ((init_state hdr_ex os_foreign_dir ''tmate'')\<lparr>label := Some ''work''\<rparr>)
   \<and> dir_exists hdr_ex os_foreign_dir (os_environ os_foreign_dir)
   \<and> is_directory hdr_ex os_foreign_dir (os_environ os_foreign_dir)
        \<lparr>st_mode = 0x41C0, st_uid = 0\<rparr>
   \<and> make_label hdr_ex os_foreign_dir (os_environ os_foreign_dir) (Some ''work'') = Inl EACCES
   \<and> exit_report (main hdr_ex os_foreign_dir ''tmate'' [(CHR ''L'', ''work'')] []) =
       Some (1, ''can't create socket: Permission denied'' @ nl)"
proof -
  let ?s = "(init_state hdr_ex os_foreign_dir ''tmate'')\<lparr>label := Some ''work''\<rparr>"
  have p: "parse_opts hdr_ex os_foreign_dir [(CHR ''L'', ''work'')]
     (init_state hdr_ex os_foreign_dir ''tmate'') = Inr ?s"
    by (rule parse_opts_one)
  have e: "env ?s = os_environ os_ex" "label ?s = Some ''work''"
    by (simp_all add: init_state_fields variant_fields)
  have h3: "shellcmd ?s = None \<or> [] = ([] :: string list)" by simp
  have h4: "path ?s = None" by (simp add: init_state_fields)
  have h5: "label ?s \<noteq> None \<or> tmux_socket (env ?s) = None" by simp
  have h6: "dir_exists hdr_ex os_foreign_dir (env ?s)" unfolding e by (rule dir_variants)
  have h7: "is_directory hdr_ex os_foreign_dir (env ?s) \<lparr>st_mode = 0x41C0, st_uid = 0\<rparr>"
    unfolding e by (rule dir_variants)
  from runtime_dir_security_check [OF init_locale_variants(2) p h3 h4 h5 h6 h7]
  have "make_label hdr_ex os_foreign_dir (env ?s) (label ?s) = Inl EACCES \<and>
     (\<exists>s'. main hdr_ex os_foreign_dir ''tmate'' [(CHR ''L'', ''work'')] [] =
             Exit 1 [] (''can't create socket: '' @ os_strerror os_foreign_dir EACCES @ nl) s')"
    by (auto simp: variant_fields)
  then have "make_label hdr_ex os_foreign_dir (os_environ os_foreign_dir) (Some ''work'') =
       Inl EACCES
     \<and> exit_report (main hdr_ex os_foreign_dir ''tmate'' [(CHR ''L'', ''work'')] []) =
       Some (1, ''can't create socket: Permission denied'' @ nl)"
    unfolding e variant_fields by (auto simp: exit_report_def strerror_ex)
  with p h6 h7 show ?thesis unfolding e variant_fields by blast
qed

text \<open>
  The sentence of the specification also refuses a directory that the group can read or
  write. The code does not: a runtime directory of mode 0770 owned by the current user
  passes the check, and \<open>tmate -L work\<close> goes on to \<open>client_main\<close> with the socket
  path in it.
\<close>

theorem runtime_dir_group_bits_counterexample:
  "os_mkdir os_group_dir ''/tmp//tmate-1000'' S_IRWXU = Some EEXIST
   \<and> os_lstat os_group_dir ''/tmp//tmate-1000'' = Inr \<lparr>st_mode = 0x41F8, st_uid = 1000\<rparr>
   \<and> os_getuid os_group_dir = 1000
   \<and> S_ISDIR 0x41F8 \<and> (0x41F8 :: 32 word) AND S_IRWXG = S_IRWXG
   \<and> runtime_dir hdr_ex os_group_dir (os_environ os_group_dir) = ''/tmp//tmate-1000''
   \<and> make_label hdr_ex os_group_dir (os_environ os_group_dir) (Some ''work'') =
       Inr ''/tmp/tmate-1000/work''
   \<and> client_socket_path (main hdr_ex os_group_dir ''tmate'' [(CHR ''L'', ''work'')] []) =
       Some ''/tmp/tmate-1000/work''"
proof -
  let ?s = "(init_state hdr_ex os_group_dir ''tmate'')\<lparr>label := Some ''work''\<rparr>"
  have cd: "canonical_dir hdr_ex os_group_dir (os_environ os_ex) = ''/tmp/tmate-1000''"
    unfolding canonical_dir_def runtime_dir_variants by (simp add: os_group_dir_def os_ex_def)
  have ml: "make_label hdr_ex os_group_dir (os_environ os_ex) (Some ''work'') =
       Inr ''/tmp/tmate-1000/work''"
    using make_label_usable [OF disjI2 [OF dir_variants(1)] dir_variants(2)]
    by (simp add: variant_fields S_IRWXO_ex cd)
  have p: "parse_opts hdr_ex os_group_dir [(CHR ''L'', ''work'')]
     (init_state hdr_ex os_group_dir ''tmate'') = Inr ?s"
    by (rule parse_opts_one)
  have ls: "locate_socket hdr_ex os_group_dir ?s = Inr ''/tmp/tmate-1000/work''"
    by (simp add: locate_socket_eq init_state_fields variant_fields ml)
  have "shellcmd ?s = None \<or> [] = ([] :: string list)" by simp
  from main_eq_Client_main [OF init_locale_variants(1) p this ls]
  have m: "client_socket_path (main hdr_ex os_group_dir ''tmate'' [(CHR ''L'', ''work'')] []) =
       Some ''/tmp/tmate-1000/work''"
    by (simp add: client_socket_path_def client_state_fields)
  have "os_mkdir os_group_dir ''/tmp//tmate-1000'' S_IRWXU = Some EEXIST"
    "os_lstat os_group_dir ''/tmp//tmate-1000'' = Inr \<lparr>st_mode = 0x41F8, st_uid = 1000\<rparr>"
    "S_ISDIR 0x41F8" "(0x41F8 :: 32 word) AND S_IRWXG = S_IRWXG"
    by (simp_all add: os_group_dir_def os_ex_def S_ISDIR_def S_IFMT_def S_IFDIR_def S_IRWXG_def)
  with ml m runtime_dir_variants(1) show ?thesis
    unfolding variant_fields by simp
qed

subsection \<open>C3: the socket path derived from the label\<close>

text \<open>
  Claim C3, as the code has it. Let the runtime directory
  \<open>{TMUX_TMPDIR, or the system temp directory}/tmate-{numeric uid}\<close> be usable: it is
  created or exists already, \<open>lstat\<close> finds a directory owned by the current user, and
  no permission bit for others is set. With a label given by \<open>-L\<close>, \<open>make_label\<close>
  returns \<open>{canonical runtime directory}/{label}\<close>. With no label, the name is not
  \<open>default\<close>: it is the name \<open>mktemp\<close> makes of
  \<open>{canonical runtime directory}/XXXXXX\<close>. The canonical directory is the answer of
  \<open>realpath\<close>; when \<open>realpath\<close> fails, \<open>make_label\<close> does not fail but uses the
  uncanonicalized path, as it fits in \<open>PATH_MAX\<close> bytes (the path itself when it is
  shorter than \<open>PATH_MAX\<close>). Two invocations by the same user with the same \<open>-L\<close>
  label, the same \<open>TMUX_TMPDIR\<close> and the same answers of \<open>realpath\<close> derive the same
  path, whether the directory had to be created or was found.
\<close>

theorem label_derived_socket_path:
  assumes "dir_created h os e \<or> dir_exists h os e"
    and "is_directory h os e sb"
    and "st_uid sb = os_getuid os"
    and "st_mode sb AND S_IRWXO = 0"
  shows "make_label h os e (Some l) = Inr (canonical_dir h os e @ ''/'' @ l)
       \<and> make_label h os e None = Inr (os_mktemp os (canonical_dir h os e @ ''/XXXXXX''))
       \<and> (os_realpath os (runtime_dir h os e) = None \<and> length (runtime_dir h os e) < PATH_MAX h
            \<longrightarrow> canonical_dir h os e = runtime_dir h os e)
       \<and> (\<forall>os' e' sb'.
            os_getuid os' = os_getuid os \<and> e' ''TMUX_TMPDIR'' = e ''TMUX_TMPDIR'' \<and>
            os_realpath os' = os_realpath os \<and>
            (dir_created h os' e' \<or> dir_exists h os' e') \<and> is_directory h os' e' sb' \<and>
            st_uid sb' = os_getuid os' \<and> st_mode sb' AND S_IRWXO = 0
            \<longrightarrow> make_label h os' e' (Some l) = make_label h os e (Some l))"
proof -
  have 1: "make_label h os e l0 =
      Inr (case l0 of
             Some l \<Rightarrow> canonical_dir h os e @ ''/'' @ l
           | None \<Rightarrow> os_mktemp os (canonical_dir h os e @ ''/XXXXXX''))" for l0
    using make_label_usable [OF assms(1,2)] assms(3,4) by simp
  have 2: "canonical_dir h os e = runtime_dir h os e"
    if "os_realpath os (runtime_dir h os e) = None \<and> length (runtime_dir h os e) < PATH_MAX h"
    using that by (auto simp: canonical_dir_def)
  have 3: "make_label h os' e' (Some l) = make_label h os e (Some l)"
    if same: "os_getuid os' = os_getuid os" "e' ''TMUX_TMPDIR'' = e ''TMUX_TMPDIR''"
      "os_realpath os' = os_realpath os"
      and ok: "dir_created h os' e' \<or> dir_exists h os' e'" "is_directory h os' e' sb'"
        "st_uid sb' = os_getuid os'" "st_mode sb' AND S_IRWXO = 0"
    for os' e' sb'
  proof -
    have rd: "runtime_dir h os' e' = runtime_dir h os e"
      by (simp add: runtime_dir_def same)
    have "canonical_dir h os' e' = canonical_dir h os e"
      unfolding canonical_dir_def rd same(3) ..
    moreover have "make_label h os' e' (Some l) = Inr (canonical_dir h os' e' @ ''/'' @ l)"
      using make_label_usable [OF ok(1,2)] ok(3,4) by simp
    ultimately show ?thesis by (simp add: 1)
  qed
  have a: "make_label h os e (Some l) = Inr (canonical_dir h os e @ ''/'' @ l)"
    using 1 [of "Some l"] by simp
  have b: "make_label h os e None = Inr (os_mktemp os (canonical_dir h os e @ ''/XXXXXX''))"
    using 1 [of None] by simp
  from a b 2 3 show ?thesis by blast
qed

text \<open>
  An instance: for user 1000 with \<open>/tmp//tmate-1000\<close> canonicalized to
  \<open>/tmp/tmate-1000\<close>, the label \<open>work\<close> gives \<open>/tmp/tmate-1000/work\<close>, no label
  gives the name chosen by \<open>mktemp\<close>, and the first run, which creates the directory,
  derives the same path for \<open>work\<close> as a later one.
\<close>

theorem label_derived_socket_path_witness:
  "make_label hdr_ex os_ex (os_environ os_ex) (Some ''work'') = Inr ''/tmp/tmate-1000/work''
   \<and> make_label hdr_ex os_ex (os_environ os_ex) None = Inr ''/tmp/tmate-1000/k3J9aZ''
   \<and> make_label hdr_ex os_first_run (os_environ os_ex) (Some ''work'') =
       make_label hdr_ex os_ex (os_environ os_ex) (Some ''work'')"
proof -
  note t = label_derived_socket_path [OF disjI2 [OF dir_ex(1)] dir_ex(2), of "''work''"]
  have u: "st_uid \<lparr>st_mode = 0x41C0, st_uid = 1000\<rparr> = os_getuid os_ex"
    "st_mode \<lparr>st_mode = 0x41C0, st_uid = 1000\<rparr> AND S_IRWXO = 0"
    by (simp_all add: variant_fields S_IRWXO_ex)
  from t [OF u]
  have a: "make_label hdr_ex os_ex (os_environ os_ex) (Some ''work'') = Inr ''/tmp/tmate-1000/work''"
    and b: "make_label hdr_ex os_ex (os_environ os_ex) None = Inr ''/tmp/tmate-1000/k3J9aZ''"
    by (simp_all add: canonical_dir_ex mktemp_ex)
  have u': "st_uid \<lparr>st_mode = 0x41C0, st_uid = 1000\<rparr> = os_getuid os_first_run"
    by (simp add: variant_fields)
  from t [OF u] dir_variants(5,6) u' u(2)
  have c: "make_label hdr_ex os_first_run (os_environ os_ex) (Some ''work'') =
       make_label hdr_ex os_ex (os_environ os_ex) (Some ''work'')"
    by (metis variant_fields(5,7,8))
  from a b c show ?thesis by blast
qed

text \<open>
  The sentence of the specification has the label default to \<open>default\<close>. In this
  build it does not: \<open>tmate\<close> without \<open>-L\<close>, \<open>-S\<close> and \<open>TMUX\<close> calls
  \<open>client_main\<close> with the socket path \<open>/tmp/tmate-1000/k3J9aZ\<close>, the name
  \<open>mktemp\<close> chose, and not with \<open>/tmp/tmate-1000/default\<close>.
\<close>

theorem random_label_counterexample:
  "client_socket_path (main hdr_ex os_ex ''tmate'' [] []) = Some ''/tmp/tmate-1000/k3J9aZ''
   \<and> canonical_dir hdr_ex os_ex (os_environ os_ex) @ ''/'' @ ''default'' = ''/tmp/tmate-1000/default''
   \<and> make_label hdr_ex os_ex (os_environ os_ex) None \<noteq> Inr ''/tmp/tmate-1000/default''"
  by (simp add: run_ex client_socket_path_def client_state_fields canonical_dir_ex make_label_ex)

subsection \<open>C4: delivery of the deferred options\<close>

text \<open>
  Claim C4. Let the option loop finish, in state \<open>s\<close>. A call of
  \<open>tmate_load_cli_options\<close> then runs exactly one \<open>set-option\<close> command for each of
  \<open>-k\<close>, \<open>-n\<close>, \<open>-r\<close>, \<open>-a\<close> that was given, with the value captured (that of the
  last occurrence), in the fixed order \<open>tmate-api-key\<close>, \<open>tmate-session-name\<close>,
  \<open>tmate-session-name-ro\<close>, \<open>tmate-authorized-keys\<close>; each value is freed right after
  its command, and the four variables are NULL afterwards, nothing else being changed. A
  second call runs no command and changes nothing.
\<close>

theorem deferred_options_delivery:
  assumes "parse_opts h os opts (init_state h os argv0) = Inr s"
  shows "tmate_load_cli_options s =
           (handoff ''tmate-api-key'' (last_optarg CHR ''k'' opts) @
            handoff ''tmate-session-name'' (last_optarg CHR ''n'' opts) @
            handoff ''tmate-session-name-ro'' (last_optarg CHR ''r'' opts) @
            handoff ''tmate-authorized-keys'' (last_optarg CHR ''a'' opts),
            s\<lparr>api_key := None, session_name := None, session_name_ro := None,
              authorized_keys := None\<rparr>)
       \<and> tmate_load_cli_options (snd (tmate_load_cli_options s)) =
           ([], snd (tmate_load_cli_options s))"
proof -
  have set_opt: "SET_OPT name v = (handoff name v, None)" for name v
    by (simp add: SET_OPT_def handoff_def split: option.splits)
  have first: "tmate_load_cli_options t =
      (handoff ''tmate-api-key'' (api_key t) @ handoff ''tmate-session-name'' (session_name t) @
       handoff ''tmate-session-name-ro'' (session_name_ro t) @
       handoff ''tmate-authorized-keys'' (authorized_keys t),
       t\<lparr>api_key := None, session_name := None, session_name_ro := None,
         authorized_keys := None\<rparr>)" for t
    by (simp add: tmate_load_cli_options_def set_opt)
  have "tmate_load_cli_options (snd (tmate_load_cli_options s)) =
           ([], snd (tmate_load_cli_options s))"
    by (simp add: first handoff_def)
  moreover note first [of s, unfolded parse_opts_init [OF assms]]
  ultimately show ?thesis by blast
qed

text \<open>
  An instance: after \<open>-k secret -n myname\<close>, two commands are run, the one for the API
  key first.
\<close>

theorem deferred_options_delivery_witness:
  "parse_opts hdr_ex os_ex [(CHR ''k'', ''secret''), (CHR ''n'', ''myname'')]
     (init_state hdr_ex os_ex ''tmate'') =
     Inr ((init_state hdr_ex os_ex ''tmate'')
            \<lparr>api_key := Some ''secret'', session_name := Some ''myname''\<rparr>)
   \<and> fst (tmate_load_cli_options
            ((init_state hdr_ex os_ex ''tmate'')
               \<lparr>api_key := Some ''secret'', session_name := Some ''myname''\<rparr>)) =
     [Run_headless_command [''set-option'', ''tmate-api-key'', ''secret''], Free ''secret'',
      Run_headless_command [''set-option'', ''tmate-session-name'', ''myname''], Free ''myname'']"
proof -
  let ?s = "(init_state hdr_ex os_ex ''tmate'')
              \<lparr>api_key := Some ''secret'', session_name := Some ''myname''\<rparr>"
  have p: "parse_opts hdr_ex os_ex [(CHR ''k'', ''secret''), (CHR ''n'', ''myname'')]
     (init_state hdr_ex os_ex ''tmate'') = Inr ?s"
    by (rule parse_opts_one)
  from deferred_options_delivery [OF p] p show ?thesis
    by (simp add: last_optarg_def handoff_def)
qed

subsection \<open>C5: checkshell\<close>

text \<open>
  Claim C5. \<open>checkshell\<close> accepts a candidate if and only if it is not NULL, not empty,
  begins with a slash, has a last path component different from the program's name with
  one leading \<open>-\<close> stripped, and is executable by the current user (\<open>access\<close> with
  \<open>X_OK\<close>). So it rejects a NULL or empty string, a relative path, the program itself
  and a path that is not executable, and accepts every absolute, executable, non-self path.
\<close>

theorem checkshell_accepts_iff:
  "checkshell os cand =
     (case cand of
        None \<Rightarrow> False
      | Some p \<Rightarrow>
          p \<noteq> [] \<and> starts_with p ''/'' \<and>
          last_component p \<noteq> strip_dash (os_progname os) \<and>
          os_access_X_OK os p)"
  by (auto simp: checkshell_def areshell_last_component split: option.splits list.splits)

text \<open>
  Instances, the program being \<open>tmate\<close>: \<open>/bin/bash\<close> is accepted; NULL, the empty
  string, \<open>bin/bash\<close>, \<open>/usr/local/bin/tmate\<close> (also when the program was started as
  \<open>-tmate\<close>) and the non-executable \<open>/bin/zsh\<close> are rejected.
\<close>

theorem checkshell_accepts_iff_witness:
  "checkshell os_ex (Some ''/bin/bash'')
   \<and> \<not> checkshell os_ex None
   \<and> \<not> checkshell os_ex (Some [])
   \<and> \<not> checkshell os_ex (Some ''bin/bash'')
   \<and> \<not> checkshell (os_ex\<lparr>os_access_X_OK := (\<lambda>p. True)\<rparr>) (Some ''/usr/local/bin/tmate'')
   \<and> \<not> checkshell (os_ex\<lparr>os_access_X_OK := (\<lambda>p. True), os_progname := ''-tmate''\<rparr>)
          (Some ''/usr/local/bin/tmate'')
   \<and> \<not> checkshell os_ex (Some ''/bin/zsh'')"
  unfolding checkshell_accepts_iff
  by (simp add: last_component_def strip_dash_def os_ex_shell_facts)

subsection \<open>C6: getshell\<close>

text \<open>
  Claim C6. \<open>getshell\<close> returns the value of \<open>SHELL\<close> if \<open>checkshell\<close> accepts it;
  else the login shell of the user's entry in the account database, if there is an entry
  and \<open>checkshell\<close> accepts its shell; else \<open>_PATH_BSHELL\<close>. So its result is
  \<open>_PATH_BSHELL\<close> or a shell that \<open>checkshell\<close> accepts. It only reads the
  environment and the system: it assigns no variable of the program, which is why its
  model is a function of the environment and the system alone.
\<close>

theorem getshell_precedence:
  "getshell h os e =
     (let fallback = (case os_getpwuid os (os_getuid os) of
                        None \<Rightarrow> PATH_BSHELL h
                      | Some pw \<Rightarrow>
                          if checkshell os (Some (pw_shell pw)) then pw_shell pw
                          else PATH_BSHELL h)
      in case e ''SHELL'' of
           None \<Rightarrow> fallback
         | Some sh \<Rightarrow> if checkshell os (Some sh) then sh else fallback)
   \<and> (getshell h os e = PATH_BSHELL h \<or> checkshell os (Some (getshell h os e)))"
  by (auto simp: getshell_def checkshell_def split: option.splits)

text \<open>
  Instances: with \<open>SHELL=/bin/bash\<close> executable the result is \<open>/bin/bash\<close>; when only
  the login shell \<open>/bin/zsh\<close> is executable it is \<open>/bin/zsh\<close>; with \<open>SHELL\<close> unset
  and a login shell that is not executable it is \<open>_PATH_BSHELL\<close>.
\<close>

theorem getshell_precedence_witness:
  "getshell hdr_ex os_ex (os_environ os_ex) = ''/bin/bash''
   \<and> getshell hdr_ex (os_ex\<lparr>os_access_X_OK := (\<lambda>p. p = ''/bin/zsh'')\<rparr>) (os_environ os_ex) =
       ''/bin/zsh''
   \<and> getshell hdr_ex os_ex Map.empty = PATH_BSHELL hdr_ex"
proof -
  have 1: "getshell hdr_ex os_ex (os_environ os_ex) = ''/bin/bash''"
    using getshell_precedence [of hdr_ex os_ex "os_environ os_ex"]
    by (simp add: checkshell_def areshell_def environ_ex os_ex_shell_facts variant_fields)
  have 2: "getshell hdr_ex (os_ex\<lparr>os_access_X_OK := (\<lambda>p. p = ''/bin/zsh'')\<rparr>) (os_environ os_ex) =
       ''/bin/zsh''"
    using getshell_precedence [of hdr_ex "os_ex\<lparr>os_access_X_OK := (\<lambda>p. p = ''/bin/zsh'')\<rparr>"
        "os_environ os_ex"]
    by (simp add: checkshell_def areshell_def environ_ex os_ex_shell_facts variant_fields)
  have 3: "getshell hdr_ex os_ex Map.empty = PATH_BSHELL hdr_ex"
    using getshell_precedence [of hdr_ex os_ex Map.empty]
    by (simp add: checkshell_def areshell_def os_ex_shell_facts variant_fields)
  from 1 2 3 show ?thesis by blast
qed

subsection \<open>C7: the UTF-8 flag\<close>

text \<open>
  Claim C7. Lines 351 to 364 of \<open>main\<close> add the UTF-8 flag to the client flags if
  \<open>TMUX\<close> is set; otherwise they add it if and only if the first non-empty value among
  \<open>LC_ALL\<close>, \<open>LC_CTYPE\<close>, \<open>LANG\<close>, in that order, contains \<open>UTF-8\<close> or
  \<open>UTF8\<close>, case-insensitively; in every other case the flags are left as they are. So
  the flag is set after the step if and only if it was set before it, or \<open>TMUX\<close> is set,
  or that value contains one of the two strings. The step only adds: every bit set before
  it, from \<open>-u\<close>, \<open>-2\<close> or anything else, is still set after it.
\<close>

theorem utf8_flag_resolution:
  "utf8_flags h e fl =
     (if e ''TMUX'' \<noteq> None
         \<or> contains_ci (first_nonempty [e ''LC_ALL'', e ''LC_CTYPE'', e ''LANG'']) ''UTF-8''
         \<or> contains_ci (first_nonempty [e ''LC_ALL'', e ''LC_CTYPE'', e ''LANG'']) ''UTF8''
      then fl OR CLIENT_UTF8 h
      else fl)
   \<and> has_bits (utf8_flags h e fl) (CLIENT_UTF8 h) =
       (has_bits fl (CLIENT_UTF8 h)
        \<or> e ''TMUX'' \<noteq> None
        \<or> contains_ci (first_nonempty [e ''LC_ALL'', e ''LC_CTYPE'', e ''LANG'']) ''UTF-8''
        \<or> contains_ci (first_nonempty [e ''LC_ALL'', e ''LC_CTYPE'', e ''LANG'']) ''UTF8'')
   \<and> has_bits (utf8_flags h e fl) fl"
proof -
  let ?v = "first_nonempty [e ''LC_ALL'', e ''LC_CTYPE'', e ''LANG'']"
  have found: "(strcasestr ?v n \<noteq> None) = contains_ci ?v n" for n
    by (rule strcasestr_contains_ci)
  have "utf8_flags h e fl =
      (if e ''TMUX'' \<noteq> None \<or> strcasestr ?v ''UTF-8'' \<noteq> None \<or> strcasestr ?v ''UTF8'' \<noteq> None
       then fl OR CLIENT_UTF8 h else fl)"
    by (simp add: utf8_flags_def Let_def locale_value_first_nonempty)
  then have eq: "utf8_flags h e fl =
      (if e ''TMUX'' \<noteq> None \<or> contains_ci ?v ''UTF-8'' \<or> contains_ci ?v ''UTF8''
       then fl OR CLIENT_UTF8 h else fl)"
    unfolding found .
  have "has_bits fl fl" by (simp add: has_bits_def)
  then have keep: "has_bits (utf8_flags h e fl) fl" by (rule utf8_flags_mono)
  have iff: "has_bits (utf8_flags h e fl) (CLIENT_UTF8 h) =
       (has_bits fl (CLIENT_UTF8 h) \<or> e ''TMUX'' \<noteq> None
        \<or> contains_ci ?v ''UTF-8'' \<or> contains_ci ?v ''UTF8'')"
    unfolding eq by (simp add: has_bits_OR_self)
  from eq iff keep show ?thesis by blast
qed

text \<open>
  Instances, from an empty flag set: \<open>TMUX\<close> set with \<open>LANG=C\<close> adds the flag;
  \<open>LANG=en_US.utf8\<close> adds it; \<open>LC_ALL=C\<close> hides \<open>LANG=en_US.utf8\<close>; an empty
  \<open>LC_ALL\<close> is skipped for \<open>LC_CTYPE=fr_FR.UTF-8\<close>; and \<open>LANG=C\<close> clears nothing
  from the flags already set.
\<close>

theorem utf8_flag_resolution_witness:
  "utf8_flags hdr_ex [''TMUX'' \<mapsto> ''/tmp/tmate-1000/abc,4242,0'', ''LANG'' \<mapsto> ''C''] 0 =
     CLIENT_UTF8 hdr_ex
   \<and> utf8_flags hdr_ex [''LANG'' \<mapsto> ''en_US.utf8''] 0 = CLIENT_UTF8 hdr_ex
   \<and> utf8_flags hdr_ex [''LC_ALL'' \<mapsto> ''C'', ''LANG'' \<mapsto> ''en_US.utf8''] 0 = 0
   \<and> utf8_flags hdr_ex [''LC_ALL'' \<mapsto> [], ''LC_CTYPE'' \<mapsto> ''fr_FR.UTF-8'', ''LANG'' \<mapsto> ''C''] 0 =
     CLIENT_UTF8 hdr_ex
   \<and> utf8_flags hdr_ex [''LANG'' \<mapsto> ''C''] (CLIENT_UTF8 hdr_ex OR CLIENT_256COLOURS hdr_ex) =
     CLIENT_UTF8 hdr_ex OR CLIENT_256COLOURS hdr_ex"
  using utf8_flag_resolution [of hdr_ex "[''TMUX'' \<mapsto> ''/tmp/tmate-1000/abc,4242,0'', ''LANG'' \<mapsto> ''C'']" 0]
    utf8_flag_resolution [of hdr_ex "[''LANG'' \<mapsto> ''en_US.utf8'']" 0]
    utf8_flag_resolution [of hdr_ex "[''LC_ALL'' \<mapsto> ''C'', ''LANG'' \<mapsto> ''en_US.utf8'']" 0]
    utf8_flag_resolution [of hdr_ex "[''LC_ALL'' \<mapsto> [], ''LC_CTYPE'' \<mapsto> ''fr_FR.UTF-8'', ''LANG'' \<mapsto> ''C'']" 0]
    utf8_flag_resolution [of hdr_ex "[''LANG'' \<mapsto> ''C'']" "CLIENT_UTF8 hdr_ex OR CLIENT_256COLOURS hdr_ex"]
  by (simp add: first_nonempty_def contains_ci_C contains_ci_utf8)

subsection \<open>C8: the keys chosen from VISUAL and EDITOR\<close>

text \<open>
  Claim C8. Whenever \<open>main\<close> reaches \<open>client_main\<close>, the session options are the
  session table with \<open>default-shell\<close> set to the shell found by \<open>getshell\<close>, and the
  window options are the window table, except for this: if \<open>VISUAL\<close> is set, or else
  \<open>EDITOR\<close>, then \<open>status-keys\<close> in the session options and \<open>mode-keys\<close> in the
  window options are both set, to the vi key table if the last path component of that value
  contains \<open>vi\<close>, and to the emacs key table if it does not. \<open>VISUAL\<close> is looked at
  first, and \<open>EDITOR\<close> only when \<open>VISUAL\<close> is not set. If neither is set, both
  options keep the values of the tables.
\<close>

theorem keys_follow_VISUAL_or_EDITOR:
  assumes "main h os argv0 opts args = Client_main s' a"
  shows "global_s_options s' =
           Some (let defaults = (OPTIONS_TABLE_SESSION h)
                       (''default-shell'' \<mapsto> OptString (getshell h os (os_environ os)))
                 in case editor_value (os_environ os) of
                      None \<Rightarrow> defaults
                    | Some v \<Rightarrow> defaults(''status-keys'' \<mapsto> keymap h v))
       \<and> global_w_options s' =
           Some (case editor_value (os_environ os) of
                   None \<Rightarrow> OPTIONS_TABLE_WINDOW h
                 | Some v \<Rightarrow> (OPTIONS_TABLE_WINDOW h)(''mode-keys'' \<mapsto> keymap h v))"
proof -
  from main_Client_main [OF assms] obtain s p
    where s: "parse_opts h os opts (init_state h os argv0) = Inr s"
      and s': "s' = (override_keys h (create_globals h os
                 (s\<lparr>flags := utf8_flags h (env s) (flags s)\<rparr>)))\<lparr>socket_path := Some p\<rparr>"
    unfolding client_state_def by blast
  have e: "env s x = os_environ os x" if "x \<noteq> ''TMUX''" for x
    using parse_opts_env [OF s] that by (simp add: init_state_fields)
  have ed: "editor_value (env s) = editor_value (os_environ os)"
    unfolding editor_value_def by (simp add: e cong: option.case_cong)
  have sh: "getshell h os (env s) = getshell h os (os_environ os)"
    by (rule getshell_cong) (simp add: e)
  show ?thesis
    unfolding s' override_keys_eq
    by (simp add: create_globals_def ed sh Let_def split: option.splits)
qed

text \<open>
  An instance: with \<open>VISUAL=/usr/bin/vim\<close>, both options are set to the vi key table.
\<close>

theorem keys_follow_VISUAL_or_EDITOR_witness:
  "main hdr_ex os_ex ''tmate'' [(CHR ''L'', ''work'')] [] =
     Client_main (client_state hdr_ex os_ex
                    ((init_state hdr_ex os_ex ''tmate'')\<lparr>label := Some ''work''\<rparr>)
                    ''/tmp/tmate-1000/work'') []
   \<and> os_environ os_ex ''VISUAL'' = Some ''/usr/bin/vim''
   \<and> global_s_options (client_state hdr_ex os_ex
                    ((init_state hdr_ex os_ex ''tmate'')\<lparr>label := Some ''work''\<rparr>)
                    ''/tmp/tmate-1000/work'') =
       Some ((OPTIONS_TABLE_SESSION hdr_ex)
               (''default-shell'' \<mapsto> OptString ''/bin/bash'',
                ''status-keys'' \<mapsto> OptNumber (MODEKEY_VI hdr_ex)))
   \<and> global_w_options (client_state hdr_ex os_ex
                    ((init_state hdr_ex os_ex ''tmate'')\<lparr>label := Some ''work''\<rparr>)
                    ''/tmp/tmate-1000/work'') =
       Some ((OPTIONS_TABLE_WINDOW hdr_ex)(''mode-keys'' \<mapsto> OptNumber (MODEKEY_VI hdr_ex)))"
proof -
  have sh: "getshell hdr_ex os_ex (os_environ os_ex) = ''/bin/bash''"
    by (simp add: getshell_def checkshell_def areshell_def environ_ex os_ex_shell_facts)
  have ed: "editor_value (os_environ os_ex) = Some ''/usr/bin/vim''"
    by (simp add: editor_value_def environ_ex)
  have vi: "MODEKEY_VI hdr_ex = 1" by (simp add: hdr_ex_def)
  from keys_follow_VISUAL_or_EDITOR [OF run_work_ex] run_work_ex environ_ex(3)
  show ?thesis
    by (simp add: sh ed keymap_vim vi)
qed

subsection \<open>C9: a shell command together with arguments\<close>

text \<open>
  Claim C9. Let the locale be accepted and the option loop finish (no \<open>-V\<close>, \<open>-h\<close> or
  unknown option ended the process inside it). If \<open>-c\<close> was given and at least one
  argument remains after the options, \<open>main\<close> writes the usage text to standard error
  and exits with status 1; at that point none of the option trees, the environment copy
  and the socket path has been created.
\<close>

theorem shellcmd_with_arguments_is_usage_error:
  assumes "init_locale os = None"
    and "parse_opts h os opts (init_state h os argv0) = Inr s"
    and "given CHR ''c'' opts"
    and "args \<noteq> []"
  shows "main h os argv0 opts args = Exit 1 [] (usage_text os) s
       \<and> global_options s = None \<and> global_s_options s = None
       \<and> global_w_options s = None \<and> global_environ s = None \<and> socket_path s = None"
proof -
  from assms(3) have "shellcmd s \<noteq> None"
    by (simp add: parse_opts_init [OF assms(2)] given_last_optarg)
  with assms have "main h os argv0 opts args = Exit 1 [] (usage_text os) s"
    by (simp add: main_def usage_def)
  moreover from parse_opts_globals [OF assms(2)]
  have "global_options s = None \<and> global_s_options s = None
       \<and> global_w_options s = None \<and> global_environ s = None \<and> socket_path s = None"
    by (simp add: init_state_fields)
  ultimately show ?thesis by blast
qed

text \<open>
  An instance: \<open>tmate -c 'echo hi' ls\<close>.
\<close>

theorem shellcmd_with_arguments_is_usage_error_witness:
  "parse_opts hdr_ex os_ex [(CHR ''c'', ''echo hi'')] (init_state hdr_ex os_ex ''tmate'') =
     Inr ((init_state hdr_ex os_ex ''tmate'')\<lparr>shellcmd := Some ''echo hi''\<rparr>)
   \<and> main hdr_ex os_ex ''tmate'' [(CHR ''c'', ''echo hi'')] [''ls''] =
     Exit 1 [] (usage_text os_ex) ((init_state hdr_ex os_ex ''tmate'')\<lparr>shellcmd := Some ''echo hi''\<rparr>)"
proof -
  have p: "parse_opts hdr_ex os_ex [(CHR ''c'', ''echo hi'')] (init_state hdr_ex os_ex ''tmate'') =
     Inr ((init_state hdr_ex os_ex ''tmate'')\<lparr>shellcmd := Some ''echo hi''\<rparr>)"
    by (rule parse_opts_one)
  have g: "given CHR ''c'' [(CHR ''c'', ''echo hi'')]" by (simp add: given_def)
  have a: "[''ls''] \<noteq> []" by simp
  from shellcmd_with_arguments_is_usage_error [OF init_locale_ex p g a] p
  show ?thesis by blast
qed

subsection \<open>C10: the flags every client gets\<close>

text \<open>
  Claim C10. The client flags start with the 256-colour and the UTF-8 flag, and no later
  step removes a flag: whatever the options and the environment, when \<open>main\<close> calls
  \<open>client_main\<close> the flags contain \<open>CLIENT_256COLOURS\<close> and \<open>CLIENT_UTF8\<close>.
\<close>

theorem client_flags_always_256_utf8:
  assumes "main h os argv0 opts args = Client_main s' a"
  shows "has_bits (flags (init_state h os argv0)) (CLIENT_256COLOURS h)
       \<and> has_bits (flags (init_state h os argv0)) (CLIENT_UTF8 h)
       \<and> has_bits (flags s') (CLIENT_256COLOURS h) \<and> has_bits (flags s') (CLIENT_UTF8 h)"
proof -
  from main_Client_main [OF assms] obtain s p
    where s: "parse_opts h os opts (init_state h os argv0) = Inr s"
      and s': "s' = (override_keys h (create_globals h os
                 (s\<lparr>flags := utf8_flags h (env s) (flags s)\<rparr>)))\<lparr>socket_path := Some p\<rparr>"
    unfolding client_state_def by blast
  from s' have fl: "flags s' = utf8_flags h (env s) (flags s)"
    by (simp add: override_keys_fields create_globals_fields)
  have "has_bits (flags s) (CLIENT_256COLOURS h)" "has_bits (flags s) (CLIENT_UTF8 h)"
    using parse_opts_flags [OF s] init_state_flags by blast+
  then show ?thesis
    unfolding fl by (simp add: utf8_flags_mono init_state_flags)
qed

text \<open>
  An instance: \<open>tmate\<close> without options and with \<open>LANG=C\<close> reaches
  \<open>client_main\<close>, with both flags.
\<close>

theorem client_flags_always_256_utf8_witness:
  "main hdr_ex os_ex ''tmate'' [] [] =
     Client_main (client_state hdr_ex os_ex (init_state hdr_ex os_ex ''tmate'')
                    ''/tmp/tmate-1000/k3J9aZ'') []
   \<and> has_bits (flags (client_state hdr_ex os_ex (init_state hdr_ex os_ex ''tmate'')
                        ''/tmp/tmate-1000/k3J9aZ'')) (CLIENT_256COLOURS hdr_ex)
   \<and> has_bits (flags (client_state hdr_ex os_ex (init_state hdr_ex os_ex ''tmate'')
                        ''/tmp/tmate-1000/k3J9aZ'')) (CLIENT_UTF8 hdr_ex)"
  using client_flags_always_256_utf8 [OF run_ex] run_ex by blast

end
